theory Spec2Isabelle
  imports Main
begin

section \<open>Python values used by the two scripts\<close>

text \<open>
  The scripts \<^verbatim>\<open>simple-mcp-test.py\<close> and \<^verbatim>\<open>test-mcp.py\<close> work on Python strings and on
  the values \<^verbatim>\<open>json.loads\<close> returns. A Python \<^verbatim>\<open>str\<close> is modelled as a \<^typ>\<open>string\<close> in
  which every \<^typ>\<open>char\<close> stands for one code point below 256 (so \<^const>\<open>length\<close> and
  \<^const>\<open>take\<close> count code points, as Python does). JSON numbers are Python ints; values of
  type float are not part of the model. A dict is the list of its items in insertion order,
  with distinct keys.
\<close>

datatype json =
    JNull
  | JBool bool
  | JInt int
  | JString string
  | JArray "json list"
  | JObject "(string \<times> json) list"

text \<open>The exceptions that the modelled code paths can raise.\<close>

datatype exn =
    JSONDecodeError
  | KeyError string
  | TypeError
  | AttributeError
  | TimeoutExpired
  | OtherError string

subsection \<open>String operations\<close>

definition NL :: char where
  "NL = CHR 0x0A"

definition DQ :: char where
  "DQ = CHR 0x22"

definition BSL :: char where
  "BSL = CHR 0x5C"

text \<open>\<^verbatim>\<open>str.isspace\<close> on one code point below 256.\<close>

definition py_isspace :: "char \<Rightarrow> bool" where
  "py_isspace c = ((of_char c :: nat) \<in> set [9, 10, 11, 12, 13, 28, 29, 30, 31, 32, 133, 160])"

text \<open>\<^verbatim>\<open>s.strip()\<close>\<close>

definition py_strip :: "string \<Rightarrow> string" where
  "py_strip s = rev (dropWhile py_isspace (rev (dropWhile py_isspace s)))"

text \<open>\<^verbatim>\<open>s.split(sep)\<close> for a separator of one character; \<open>cur\<close> is the current piece, reversed.\<close>

fun split_acc :: "char \<Rightarrow> string \<Rightarrow> string \<Rightarrow> string list" where
  "split_acc sep cur [] = [rev cur]"
| "split_acc sep cur (c # cs) =
     (if c = sep then rev cur # split_acc sep [] cs else split_acc sep (c # cur) cs)"

definition py_split :: "char \<Rightarrow> string \<Rightarrow> string list" where
  "py_split sep s = split_acc sep [] s"

text \<open>\<^verbatim>\<open>sep.join(xs)\<close>\<close>

fun py_join :: "string \<Rightarrow> string list \<Rightarrow> string" where
  "py_join sep [] = []"
| "py_join sep [x] = x"
| "py_join sep (x # y # ys) = x @ sep @ py_join sep (y # ys)"

text \<open>\<^verbatim>\<open>s.startswith(p)\<close>\<close>

definition py_startswith :: "string \<Rightarrow> string \<Rightarrow> bool" where
  "py_startswith p s = (take (length p) s = p)"

text \<open>\<^verbatim>\<open>needle in haystack\<close> for two strings.\<close>

fun py_contains :: "string \<Rightarrow> string \<Rightarrow> bool" where
  "py_contains p [] = (p = [])"
| "py_contains p (c # cs) = (py_startswith p (c # cs) \<or> py_contains p cs)"

subsection \<open>\<^verbatim>\<open>json.dumps\<close> with its default arguments\<close>

definition digit_char :: "nat \<Rightarrow> char" where
  "digit_char d = ''0123456789abcdef'' ! (d mod 16)"

fun dec_nat :: "nat \<Rightarrow> string" where
  "dec_nat n = (if n < 10 then [digit_char n] else dec_nat (n div 10) @ [digit_char (n mod 10)])"

declare dec_nat.simps [simp del]

definition dec_int :: "int \<Rightarrow> string" where
  "dec_int i = (if i < 0 then CHR ''-'' # dec_nat (nat (- i)) else dec_nat (nat i))"

text \<open>
  The encoder escapes the quote, the backslash and every character outside the printable
  ASCII range (\<^verbatim>\<open>ensure_ascii=True\<close>), with short forms for the usual control characters.
\<close>

definition escape_char :: "char \<Rightarrow> string" where
  "escape_char c =
     (if c = DQ then [BSL, DQ]
      else if c = BSL then [BSL, BSL]
      else if c = NL then [BSL, CHR ''n'']
      else if c = CHR 0x0D then [BSL, CHR ''r'']
      else if c = CHR 0x09 then [BSL, CHR ''t'']
      else if c = CHR 0x08 then [BSL, CHR ''b'']
      else if c = CHR 0x0C then [BSL, CHR ''f'']
      else if 32 \<le> (of_char c :: nat) \<and> (of_char c :: nat) \<le> 126 then [c]
      else [BSL, CHR ''u'', CHR ''0'', CHR ''0'',
            digit_char (of_char c div 16), digit_char (of_char c mod 16)])"

definition quote_string :: "string \<Rightarrow> string" where
  "quote_string s = DQ # concat (map escape_char s) @ [DQ]"

fun json_dumps :: "json \<Rightarrow> string" where
  "json_dumps JNull = ''null''"
| "json_dumps (JBool b) = (if b then ''true'' else ''false'')"
| "json_dumps (JInt i) = dec_int i"
| "json_dumps (JString s) = quote_string s"
| "json_dumps (JArray xs) = ''['' @ py_join '', '' (map json_dumps xs) @ '']''"
| "json_dumps (JObject kvs) =
     ''{'' @ py_join '', '' (map (\<lambda>(k, v). quote_string k @ '': '' @ json_dumps v) kvs) @ ''}''"

subsection \<open>A reference parser standing for \<^verbatim>\<open>json.loads\<close>\<close>

text \<open>
  The scripts are modelled for an arbitrary parser \<open>loads\<close>, which returns either the
  exception it raises or the parsed value. To run them on concrete output, \<open>json_loads\<close>
  below parses JSON text: a scanner that reads the text character by character into
  tokens, and a parser that reads the tokens with a stack of open arrays and objects.
  It follows \<^verbatim>\<open>json.loads\<close> on documents whose numbers are integer literals and whose
  \<^verbatim>\<open>\u\<close> escapes denote code points below 256: the four JSON white-space characters around
  tokens, no trailing commas, no control characters inside strings, no text after the
  value, and the last value of a repeated key kept at the key's first position. Number
  literals with a fraction or an exponent, \<^verbatim>\<open>NaN\<close> and \<^verbatim>\<open>Infinity\<close> denote floats in Python
  and lie outside this model; \<open>json_loads\<close> rejects them.
\<close>

datatype token = TLBrace | TRBrace | TLBrack | TRBrack | TColon | TComma | TStr string | TWord string

datatype lex_mode = Idle | InWord string | InStr string | InEsc string | InUni string string

definition json_space :: "char \<Rightarrow> bool" where
  "json_space c = (c = CHR '' '' \<or> c = CHR 0x09 \<or> c = NL \<or> c = CHR 0x0D)"

definition punct :: "char \<Rightarrow> token option" where
  "punct c =
     (if c = CHR ''{'' then Some TLBrace
      else if c = CHR ''}'' then Some TRBrace
      else if c = CHR ''['' then Some TLBrack
      else if c = CHR '']'' then Some TRBrack
      else if c = CHR '':'' then Some TColon
      else if c = CHR '','' then Some TComma
      else None)"

definition unescape :: "char \<Rightarrow> char option" where
  "unescape c =
     (if c = DQ then Some DQ
      else if c = BSL then Some BSL
      else if c = CHR ''/'' then Some (CHR ''/'')
      else if c = CHR ''b'' then Some (CHR 0x08)
      else if c = CHR ''f'' then Some (CHR 0x0C)
      else if c = CHR ''n'' then Some NL
      else if c = CHR ''r'' then Some (CHR 0x0D)
      else if c = CHR ''t'' then Some (CHR 0x09)
      else None)"

definition hex_val :: "char \<Rightarrow> nat option" where
  "hex_val c =
     (let n = (of_char c :: nat) in
      if 48 \<le> n \<and> n \<le> 57 then Some (n - 48)
      else if 97 \<le> n \<and> n \<le> 102 then Some (n - 87)
      else if 65 \<le> n \<and> n \<le> 70 then Some (n - 55)
      else None)"

definition lex_char :: "lex_mode \<Rightarrow> char \<Rightarrow> (lex_mode \<times> token list) option" where
  "lex_char m c =
     (case m of
        Idle \<Rightarrow>
          (case punct c of
             Some t \<Rightarrow> Some (Idle, [t])
           | None \<Rightarrow>
               if json_space c then Some (Idle, [])
               else if c = DQ then Some (InStr [], [])
               else Some (InWord [c], []))
      | InWord w \<Rightarrow>
          (case punct c of
             Some t \<Rightarrow> Some (Idle, [TWord (rev w), t])
           | None \<Rightarrow>
               if json_space c then Some (Idle, [TWord (rev w)])
               else if c = DQ then Some (InStr [], [TWord (rev w)])
               else Some (InWord (c # w), []))
      | InStr acc \<Rightarrow>
          if c = DQ then Some (Idle, [TStr (rev acc)])
          else if c = BSL then Some (InEsc acc, [])
          else if (of_char c :: nat) < 32 then None
          else Some (InStr (c # acc), [])
      | InEsc acc \<Rightarrow>
          (case unescape c of
             Some d \<Rightarrow> Some (InStr (d # acc), [])
           | None \<Rightarrow> if c = CHR ''u'' then Some (InUni acc [], []) else None)
      | InUni acc ds \<Rightarrow>
          (case hex_val c of
             None \<Rightarrow> None
           | Some h \<Rightarrow>
               if length ds < 3 then Some (InUni acc (ds @ [c]), [])
               else (case those (map hex_val (ds @ [c])) of
                       None \<Rightarrow> None
                     | Some hs \<Rightarrow>
                         (let n = foldl (\<lambda>a d. 16 * a + d) 0 hs in
                          if n < 256 then Some (InStr (char_of n # acc), []) else None))))"

fun lex :: "lex_mode \<Rightarrow> string \<Rightarrow> token list option" where
  "lex m [] = (case m of Idle \<Rightarrow> Some [] | InWord w \<Rightarrow> Some [TWord (rev w)] | _ \<Rightarrow> None)"
| "lex m (c # cs) =
     (case lex_char m c of
        None \<Rightarrow> None
      | Some (m', ts) \<Rightarrow> (case lex m' cs of None \<Rightarrow> None | Some us \<Rightarrow> Some (ts @ us)))"

definition is_digit :: "char \<Rightarrow> bool" where
  "is_digit c = (48 \<le> (of_char c :: nat) \<and> (of_char c :: nat) \<le> 57)"

definition nat_literal :: "string \<Rightarrow> nat option" where
  "nat_literal ds =
     (case ds of
        [] \<Rightarrow> None
      | d # rest \<Rightarrow>
          if list_all is_digit ds \<and> (d \<noteq> CHR ''0'' \<or> rest = [])
          then Some (foldl (\<lambda>a c. 10 * a + (of_char c - 48)) 0 ds)
          else None)"

definition word_value :: "string \<Rightarrow> json option" where
  "word_value w =
     (if w = ''true'' then Some (JBool True)
      else if w = ''false'' then Some (JBool False)
      else if w = ''null'' then Some JNull
      else (case w of
              [] \<Rightarrow> None
            | c # ds \<Rightarrow>
                if c = CHR ''-'' then map_option (\<lambda>n. JInt (- int n)) (nat_literal ds)
                else map_option (\<lambda>n. JInt (int n)) (nat_literal w)))"

fun dict_set :: "(string \<times> json) list \<Rightarrow> string \<Rightarrow> json \<Rightarrow> (string \<times> json) list" where
  "dict_set [] k v = [(k, v)]"
| "dict_set ((k', v') # kvs) k v =
     (if k' = k then (k, v) # kvs else (k', v') # dict_set kvs k v)"

datatype frame =
    ArrFrame "json list"
  | ObjFrame "(string \<times> json) list"
  | PairFrame "(string \<times> json) list" string

datatype expect =
    WantValue | WantValueOrEnd | WantKeyOrEnd | WantKey | WantColon | WantCommaOrEnd
  | Complete json

fun push_value :: "json \<Rightarrow> frame list \<Rightarrow> (expect \<times> frame list) option" where
  "push_value v [] = Some (Complete v, [])"
| "push_value v (ArrFrame xs # fs) = Some (WantCommaOrEnd, ArrFrame (v # xs) # fs)"
| "push_value v (PairFrame kvs k # fs) = Some (WantCommaOrEnd, ObjFrame (dict_set kvs k v) # fs)"
| "push_value v (ObjFrame kvs # fs) = None"

fun start_value :: "token \<Rightarrow> frame list \<Rightarrow> (expect \<times> frame list) option" where
  "start_value (TStr s) fs = push_value (JString s) fs"
| "start_value (TWord w) fs = (case word_value w of None \<Rightarrow> None | Some v \<Rightarrow> push_value v fs)"
| "start_value TLBrack fs = Some (WantValueOrEnd, ArrFrame [] # fs)"
| "start_value TLBrace fs = Some (WantKeyOrEnd, ObjFrame [] # fs)"
| "start_value _ fs = None"

fun start_pair :: "token \<Rightarrow> frame list \<Rightarrow> (expect \<times> frame list) option" where
  "start_pair (TStr k) (ObjFrame kvs # fs) = Some (WantColon, PairFrame kvs k # fs)"
| "start_pair _ _ = None"

fun close_frame :: "token \<Rightarrow> frame list \<Rightarrow> (expect \<times> frame list) option" where
  "close_frame TRBrack (ArrFrame xs # fs) = push_value (JArray (rev xs)) fs"
| "close_frame TRBrace (ObjFrame kvs # fs) = push_value (JObject kvs) fs"
| "close_frame _ _ = None"

fun parse_token :: "expect \<Rightarrow> frame list \<Rightarrow> token \<Rightarrow> (expect \<times> frame list) option" where
  "parse_token WantValue fs t = start_value t fs"
| "parse_token WantValueOrEnd fs t = (if t = TRBrack then close_frame t fs else start_value t fs)"
| "parse_token WantKeyOrEnd fs t = (if t = TRBrace then close_frame t fs else start_pair t fs)"
| "parse_token WantKey fs t = start_pair t fs"
| "parse_token WantColon fs t = (if t = TColon then Some (WantValue, fs) else None)"
| "parse_token WantCommaOrEnd fs t =
     (if t = TComma then
        (case fs of
           ArrFrame xs # _ \<Rightarrow> Some (WantValue, fs)
         | ObjFrame kvs # _ \<Rightarrow> Some (WantKey, fs)
         | _ \<Rightarrow> None)
      else close_frame t fs)"
| "parse_token (Complete v) fs t = None"

fun parse_tokens :: "expect \<Rightarrow> frame list \<Rightarrow> token list \<Rightarrow> json option" where
  "parse_tokens e fs [] = (case (e, fs) of (Complete v, []) \<Rightarrow> Some v | _ \<Rightarrow> None)"
| "parse_tokens e fs (t # ts) =
     (case parse_token e fs t of None \<Rightarrow> None | Some (e', fs') \<Rightarrow> parse_tokens e' fs' ts)"

definition json_loads :: "string \<Rightarrow> exn + json" where
  "json_loads s =
     (case lex Idle s of
        None \<Rightarrow> Inl JSONDecodeError
      | Some ts \<Rightarrow>
          (case parse_tokens WantValue [] ts of
             None \<Rightarrow> Inl JSONDecodeError
           | Some v \<Rightarrow> Inr v))"

section \<open>The requests written to the container\<close>

subsection \<open>\<^verbatim>\<open>simple-mcp-test.py\<close>\<close>

definition simple_requests :: "string list" where
  \<open>simple_requests =
    [''{"jsonrpc": "2.0", "id": 1, "method": "initialize", "params": {"protocolVersion": "2024-11-05", "capabilities": {}, "clientInfo": {"name": "test", "version": "1.0.0"}}}'',
     ''{"jsonrpc": "2.0", "method": "notifications/initialized"}'',
     ''{"jsonrpc": "2.0", "id": 2, "method": "tools/call", "params": {"name": "get_cik_by_ticker", "arguments": {"ticker": "AAPL"}}}'']\<close>

definition simple_input_data :: string where
  "simple_input_data = py_join [NL] simple_requests @ [NL]"

subsection \<open>\<^verbatim>\<open>test-mcp.py\<close>\<close>

definition init_request :: json where
  "init_request =
     JObject [(''jsonrpc'', JString ''2.0''),
              (''id'', JInt 1),
              (''method'', JString ''initialize''),
              (''params'', JObject [(''protocolVersion'', JString ''2024-11-05''),
                                    (''capabilities'', JObject []),
                                    (''clientInfo'', JObject [(''name'', JString ''test-client''),
                                                              (''version'', JString ''1.0.0'')])])]"

definition init_notification :: json where
  "init_notification =
     JObject [(''jsonrpc'', JString ''2.0''),
              (''method'', JString ''notifications/initialized'')]"

definition mcp_requests :: "json \<Rightarrow> string list" where
  "mcp_requests request =
     [json_dumps init_request @ [NL],
      json_dumps init_notification @ [NL],
      json_dumps request @ [NL]]"

definition mcp_input :: "json \<Rightarrow> string" where
  "mcp_input request = concat (mcp_requests request)"

definition tools_list_request :: json where
  "tools_list_request =
     JObject [(''jsonrpc'', JString ''2.0''),
              (''id'', JInt 2),
              (''method'', JString ''tools/list'')]"

definition cik_request :: json where
  "cik_request =
     JObject [(''jsonrpc'', JString ''2.0''),
              (''id'', JInt 3),
              (''method'', JString ''tools/call''),
              (''params'', JObject [(''name'', JString ''get_cik_by_ticker''),
                                    (''arguments'', JObject [(''ticker'', JString ''AAPL'')])])]"

section \<open>Effects, exceptions and the container\<close>

text \<open>
  Every call of the scripts that acts on the outside is one \<open>effect\<close>; a run of a script
  is the list of its effects in order, with the exception that ended it, if any.
  \<^item> \<open>Run cmd input t\<close> is \<^verbatim>\<open>subprocess.run(cmd, input=input, text=True, capture_output=True, timeout=t)\<close>
     (the library starts the process, writes \<open>input\<close>, and kills the process itself when
     the timeout expires);
  \<^item> \<open>Popen cmd\<close> is \<^verbatim>\<open>subprocess.Popen(cmd, ...)\<close>; \<open>Communicate input t\<close> is
     \<^verbatim>\<open>process.communicate(input=input, timeout=t)\<close>; \<open>Kill\<close> is \<^verbatim>\<open>process.kill()\<close>;
  \<^item> \<open>JsonLoads line\<close> records a call \<^verbatim>\<open>json.loads(line)\<close>;
  \<^item> \<open>Print s\<close> is \<^verbatim>\<open>print(s)\<close>; \<open>PrintJson v\<close> is \<^verbatim>\<open>print(json.dumps(v, indent=2))\<close>;
     \<open>PrintTool a b\<close> is \<^verbatim>\<open>print(f"  - {a}: {b}...")\<close>; \<open>PrintError e\<close> is \<^verbatim>\<open>print(f"Error: {e}")\<close>.
\<close>

datatype effect =
    Run "string list" string nat
  | Popen "string list"
  | Communicate string nat
  | Kill
  | JsonLoads string
  | Print string
  | PrintJson json
  | PrintTool json json
  | PrintError exn

text \<open>
  What one start of the container does: starting it raises, or the exchange with it
  raises (\<open>CommRaises TimeoutExpired\<close> is the timeout), or it returns its standard output
  and standard error as text. A \<open>container\<close> gives the outcome of the \<open>k\<close>-th start
  (counted from 0) on a given standard input.
\<close>

datatype outcome =
    SpawnRaises exn
  | CommRaises exn
  | Returns string string

type_synonym container = "nat \<Rightarrow> string \<Rightarrow> outcome"

text \<open>
  A run of a piece of code: the effects it had, in order, and either the exception that
  ended it or the value it returned.
\<close>

type_synonym 'a io = "effect list \<times> (exn + 'a)"

definition lift :: "exn + 'a \<Rightarrow> 'a io" where
  "lift r = ([], r)"

definition emit :: "effect \<Rightarrow> unit io" where
  "emit e = ([e], Inr ())"

definition after :: "effect list \<Rightarrow> 'a io \<Rightarrow> 'a io" where
  "after t m = (t @ fst m, snd m)"

definition io_bind :: "'a io \<Rightarrow> ('a \<Rightarrow> 'b io) \<Rightarrow> 'b io" where
  "io_bind m k = (case snd m of Inl e \<Rightarrow> (fst m, Inl e) | Inr a \<Rightarrow> after (fst m) (k a))"

definition io_then :: "'a io \<Rightarrow> 'b io \<Rightarrow> 'b io" where
  "io_then m k = io_bind m (\<lambda>_. k)"

definition docker_cmd :: "string list" where
  "docker_cmd =
     [''docker'', ''run'', ''--rm'', ''-i'',
      ''-e'', ''SEC_EDGAR_USER_AGENT=EdgarAnswerEngine/2.0 (brett.vantil@crowe.com)'',
      ''stefanoamorelli/sec-edgar-mcp:latest'']"

subsection \<open>Operations on parsed values\<close>

text \<open>\<^verbatim>\<open>key in x\<close> for a string \<open>key\<close>: a key of a dict, an element of a list, a substring of a string.\<close>

fun py_in :: "string \<Rightarrow> json \<Rightarrow> exn + bool" where
  "py_in k (JObject kvs) = Inr (map_of kvs k \<noteq> None)"
| "py_in k (JArray xs) = Inr (List.member xs (JString k))"
| "py_in k (JString s) = Inr (py_contains k s)"
| "py_in k _ = Inl TypeError"

text \<open>\<^verbatim>\<open>x[key]\<close> for a string \<open>key\<close>.\<close>

fun py_getitem :: "json \<Rightarrow> string \<Rightarrow> exn + json" where
  "py_getitem (JObject kvs) k = (case map_of kvs k of None \<Rightarrow> Inl (KeyError k) | Some v \<Rightarrow> Inr v)"
| "py_getitem _ k = Inl TypeError"

text \<open>\<^verbatim>\<open>x.get(key)\<close>: only a dict has the method; a missing key gives \<^verbatim>\<open>None\<close>.\<close>

fun py_get :: "json \<Rightarrow> string \<Rightarrow> exn + json" where
  "py_get (JObject kvs) k = Inr (case map_of kvs k of None \<Rightarrow> JNull | Some v \<Rightarrow> v)"
| "py_get _ k = Inl AttributeError"

text \<open>\<^verbatim>\<open>x == n\<close> for an int literal \<open>n\<close> (\<^verbatim>\<open>True == 1\<close> and \<^verbatim>\<open>False == 0\<close> in Python).\<close>

fun py_eq_int :: "json \<Rightarrow> int \<Rightarrow> bool" where
  "py_eq_int (JInt i) n = (i = n)"
| "py_eq_int (JBool b) n = ((if b then 1 else 0) = n)"
| "py_eq_int _ n = False"

text \<open>\<^verbatim>\<open>len(x)\<close>\<close>

fun py_len :: "json \<Rightarrow> exn + nat" where
  "py_len (JArray xs) = Inr (length xs)"
| "py_len (JObject kvs) = Inr (length kvs)"
| "py_len (JString s) = Inr (length s)"
| "py_len _ = Inl TypeError"

text \<open>\<^verbatim>\<open>x[:n]\<close>; slicing a dict raises (a \<^verbatim>\<open>TypeError\<close> up to Python 3.11).\<close>

fun py_slice_to :: "nat \<Rightarrow> json \<Rightarrow> exn + json" where
  "py_slice_to n (JArray xs) = Inr (JArray (take n xs))"
| "py_slice_to n (JString s) = Inr (JString (take n s))"
| "py_slice_to n _ = Inl TypeError"

text \<open>The values a \<^verbatim>\<open>for\<close> loop over \<open>x\<close> visits.\<close>

fun py_iter :: "json \<Rightarrow> exn + json list" where
  "py_iter (JArray xs) = Inr xs"
| "py_iter (JString s) = Inr (map (\<lambda>c. JString [c]) s)"
| "py_iter (JObject kvs) = Inr (map (\<lambda>kv. JString (fst kv)) kvs)"
| "py_iter _ = Inl TypeError"

subsection \<open>The scanning loop shared by both scripts\<close>

text \<open>
  All three loops have the shape
  \<^verbatim>\<open>for line in lines: try: BODY except json.JSONDecodeError: continue\<close>.
  The body returns \<open>True\<close> when it leaves the loop (\<^verbatim>\<open>break\<close> or \<^verbatim>\<open>return\<close>); any exception
  other than \<open>JSONDecodeError\<close> leaves the loop as well.
\<close>

fun for_lines :: "(string \<Rightarrow> bool io) \<Rightarrow> string list \<Rightarrow> unit io" where
  "for_lines body [] = ([], Inr ())"
| "for_lines body (line # rest) =
     (case snd (body line) of
        Inl e \<Rightarrow>
          if e = JSONDecodeError then after (fst (body line)) (for_lines body rest)
          else (fst (body line), Inl e)
      | Inr stop \<Rightarrow>
          if stop then (fst (body line), Inr ())
          else after (fst (body line)) (for_lines body rest))"

text \<open>\<^verbatim>\<open>stdout.strip().split('\n')\<close>\<close>

definition output_lines :: "string \<Rightarrow> string list" where
  "output_lines out = py_split NL (py_strip out)"

section \<open>\<^verbatim>\<open>simple-mcp-test.py\<close>\<close>

text \<open>The test \<^verbatim>\<open>line.strip() and line.startswith('{')\<close> that guards the parse.\<close>

definition looks_like_json :: "string \<Rightarrow> bool" where
  "looks_like_json line = (py_strip line \<noteq> [] \<and> py_startswith ''{'' line)"

definition apple_body :: "(string \<Rightarrow> exn + json) \<Rightarrow> string \<Rightarrow> bool io" where
  "apple_body loads line =
     (if looks_like_json line then
        io_then (emit (JsonLoads line))
          (io_bind (lift (loads line)) (\<lambda>response.
             io_bind (lift (py_get response ''id'')) (\<lambda>v.
               if py_eq_int v 2 then
                 io_then (emit (Print ''SUCCESS! Apple's CIK data:''))
                   (io_then (emit (PrintJson response)) (lift (Inr True)))
               else lift (Inr False))))
      else lift (Inr False))"

definition apple_scan :: "(string \<Rightarrow> exn + json) \<Rightarrow> string list \<Rightarrow> unit io" where
  "apple_scan loads lines = for_lines (apple_body loads) lines"

text \<open>The two \<^verbatim>\<open>except\<close> clauses of \<^verbatim>\<open>test_apple_cik\<close>: the timeout, then any other exception.\<close>

definition apple_handler :: "exn \<Rightarrow> effect list" where
  "apple_handler e = (if e = TimeoutExpired then [Print ''Request timed out''] else [PrintError e])"

text \<open>The body of the \<^verbatim>\<open>try\<close> block of \<^verbatim>\<open>test_apple_cik\<close>, then the function itself.\<close>

definition apple_try :: "(string \<Rightarrow> exn + json) \<Rightarrow> container \<Rightarrow> unit io" where
  "apple_try loads docker =
     after [Run docker_cmd simple_input_data 15]
       (case docker 0 simple_input_data of
          SpawnRaises e \<Rightarrow> ([], Inl e)
        | CommRaises e \<Rightarrow> ([], Inl e)
        | Returns out err \<Rightarrow>
            after [Print ''=== RAW OUTPUT ==='',
                   Print (''STDOUT: '' @ out),
                   Print (''STDERR: '' @ err),
                   Print (NL # ''=== PARSED RESPONSES ==='')]
              (apple_scan loads (output_lines out)))"

definition test_apple_cik :: "(string \<Rightarrow> exn + json) \<Rightarrow> container \<Rightarrow> effect list" where
  "test_apple_cik loads docker =
     (case snd (apple_try loads docker) of
        Inl e \<Rightarrow> fst (apple_try loads docker) @ apple_handler e
      | Inr u \<Rightarrow> fst (apple_try loads docker))"

section \<open>\<^verbatim>\<open>test-mcp.py\<close>\<close>

definition send_mcp_request :: "container \<Rightarrow> nat \<Rightarrow> json \<Rightarrow> (string option \<times> string) io" where
  "send_mcp_request docker k request =
     (case docker k (mcp_input request) of
        SpawnRaises e \<Rightarrow> ([Popen docker_cmd], Inl e)
      | CommRaises e \<Rightarrow>
          if e = TimeoutExpired
          then ([Popen docker_cmd, Communicate (mcp_input request) 30, Kill], Inr (None, ''Timeout''))
          else ([Popen docker_cmd, Communicate (mcp_input request) 30], Inl e)
      | Returns out err \<Rightarrow>
          ([Popen docker_cmd, Communicate (mcp_input request) 30], Inr (Some out, err)))"

text \<open>\<^verbatim>\<open>'result' in response and key in response['result']\<close>\<close>

definition in_result :: "string \<Rightarrow> json \<Rightarrow> exn + bool" where
  "in_result key response =
     (case py_in ''result'' response of
        Inl e \<Rightarrow> Inl e
      | Inr b \<Rightarrow>
          if b then (case py_getitem response ''result'' of Inl e \<Rightarrow> Inl e | Inr r \<Rightarrow> py_in key r)
          else Inr False)"

text \<open>The arguments of one \<^verbatim>\<open>print(f"  - {tool['name']}: {tool['description'][:60]}...")\<close>.\<close>

definition tool_entry :: "json \<Rightarrow> exn + effect" where
  "tool_entry tool =
     (case py_getitem tool ''name'' of
        Inl e \<Rightarrow> Inl e
      | Inr name \<Rightarrow>
          (case py_getitem tool ''description'' of
             Inl e \<Rightarrow> Inl e
           | Inr d \<Rightarrow>
               (case py_slice_to 60 d of Inl e \<Rightarrow> Inl e | Inr ds \<Rightarrow> Inr (PrintTool name ds))))"

fun print_tools :: "json list \<Rightarrow> unit io" where
  "print_tools [] = ([], Inr ())"
| "print_tools (tool # ts) =
     (case tool_entry tool of
        Inl e \<Rightarrow> ([], Inl e)
      | Inr p \<Rightarrow> after [p] (print_tools ts))"

text \<open>Lines 70 to 76: the branch taken when the response has \<^verbatim>\<open>result.tools\<close>.\<close>

definition show_tools :: "json \<Rightarrow> bool io" where
  "show_tools response =
     io_bind (lift (py_getitem response ''result'')) (\<lambda>r.
     io_bind (lift (py_getitem r ''tools'')) (\<lambda>tools.
     io_bind (lift (py_len tools)) (\<lambda>n.
     io_then (emit (Print (''Found '' @ dec_nat n @ '' tools:'')))
    (io_bind (lift (py_slice_to 5 tools)) (\<lambda>first.
     io_bind (lift (py_iter first)) (\<lambda>ts.
     io_then (print_tools ts)
    (io_then (if n > 5 then emit (Print (''  ... and '' @ dec_nat (n - 5) @ '' more tools''))
              else lift (Inr ()))
       (lift (Inr True)))))))))"

definition tools_body :: "(string \<Rightarrow> exn + json) \<Rightarrow> string \<Rightarrow> bool io" where
  "tools_body loads line =
     io_then (emit (JsonLoads line))
       (io_bind (lift (loads line)) (\<lambda>response.
          io_bind (lift (in_result ''tools'' response)) (\<lambda>found.
            if found then show_tools response else lift (Inr False))))"

definition tools_scan :: "(string \<Rightarrow> exn + json) \<Rightarrow> string list \<Rightarrow> unit io" where
  "tools_scan loads lines = for_lines (tools_body loads) lines"

text \<open>\<^verbatim>\<open>'result' in response and response['id'] == 3\<close>\<close>

definition result_with_id_3 :: "json \<Rightarrow> exn + bool" where
  "result_with_id_3 response =
     (case py_in ''result'' response of
        Inl e \<Rightarrow> Inl e
      | Inr b \<Rightarrow>
          if b then (case py_getitem response ''id'' of Inl e \<Rightarrow> Inl e | Inr v \<Rightarrow> Inr (py_eq_int v 3))
          else Inr False)"

definition cik_body :: "(string \<Rightarrow> exn + json) \<Rightarrow> string \<Rightarrow> bool io" where
  "cik_body loads line =
     io_then (emit (JsonLoads line))
       (io_bind (lift (loads line)) (\<lambda>response.
          io_bind (lift (in_result ''content'' response)) (\<lambda>has_content.
            if has_content then
              io_then (emit (Print ''Apple (AAPL) CIK lookup result:''))
                (io_bind (lift (py_getitem response ''result'')) (\<lambda>r.
                 io_bind (lift (py_getitem r ''content'')) (\<lambda>c.
                 io_then (emit (PrintJson c)) (lift (Inr True)))))
            else
              io_bind (lift (result_with_id_3 response)) (\<lambda>is_ours.
                if is_ours then
                  io_then (emit (Print ''Apple (AAPL) CIK lookup result:''))
                    (io_bind (lift (py_getitem response ''result'')) (\<lambda>r.
                     io_then (emit (PrintJson r)) (lift (Inr True))))
                else lift (Inr False)))))"

definition cik_scan :: "(string \<Rightarrow> exn + json) \<Rightarrow> string list \<Rightarrow> unit io" where
  "cik_scan loads lines = for_lines (cik_body loads) lines"

text \<open>\<^verbatim>\<open>if stdout: lines = stdout.strip().split('\n'); for line in lines: ...\<close>\<close>

definition process_stdout :: "(string list \<Rightarrow> unit io) \<Rightarrow> string option \<Rightarrow> unit io" where
  "process_stdout scan stdout =
     (case stdout of
        None \<Rightarrow> ([], Inr ())
      | Some out \<Rightarrow> if out = [] then ([], Inr ()) else scan (output_lines out))"

text \<open>The main block: the tools/list test, then the CIK lookup test.\<close>

definition tools_test :: "(string \<Rightarrow> exn + json) \<Rightarrow> container \<Rightarrow> unit io" where
  "tools_test loads docker =
     io_then (emit (Print ''=== Testing MCP Tools List ===''))
       (io_bind (send_mcp_request docker 0 tools_list_request) (\<lambda>res.
          process_stdout (tools_scan loads) (fst res)))"

definition cik_test :: "(string \<Rightarrow> exn + json) \<Rightarrow> container \<Rightarrow> unit io" where
  "cik_test loads docker =
     io_then (emit (Print (NL # ''=== Testing Company CIK Lookup ==='')))
       (io_bind (send_mcp_request docker 1 cik_request) (\<lambda>res.
          process_stdout (cik_scan loads) (fst res)))"

definition main :: "(string \<Rightarrow> exn + json) \<Rightarrow> container \<Rightarrow> unit io" where
  "main loads docker = io_then (tools_test loads docker) (cik_test loads docker)"

section \<open>Reading a run\<close>

text \<open>What a run printed, which lines it handed to the parser, which texts it passed
  to the container as standard input, with which timeouts, and how many launch calls it
  made (\<^verbatim>\<open>subprocess.run\<close> or \<^verbatim>\<open>subprocess.Popen\<close>; a launch call counts whether or not the
  container then starts).\<close>

fun is_print :: "effect \<Rightarrow> bool" where
  "is_print (Print s) = True"
| "is_print (PrintJson v) = True"
| "is_print (PrintTool a b) = True"
| "is_print (PrintError e) = True"
| "is_print _ = False"

definition printed :: "effect list \<Rightarrow> effect list" where
  "printed t = filter is_print t"

fun attempts :: "effect list \<Rightarrow> string list" where
  "attempts [] = []"
| "attempts (JsonLoads line # es) = line # attempts es"
| "attempts (e # es) = attempts es"

fun inputs :: "effect list \<Rightarrow> string list" where
  "inputs [] = []"
| "inputs (Run cmd inp t # es) = inp # inputs es"
| "inputs (Communicate inp t # es) = inp # inputs es"
| "inputs (e # es) = inputs es"

fun timeouts :: "effect list \<Rightarrow> nat list" where
  "timeouts [] = []"
| "timeouts (Run cmd inp t # es) = t # timeouts es"
| "timeouts (Communicate inp t # es) = t # timeouts es"
| "timeouts (e # es) = timeouts es"

fun launches :: "effect list \<Rightarrow> nat" where
  "launches [] = 0"
| "launches (Run cmd inp t # es) = Suc (launches es)"
| "launches (Popen cmd # es) = Suc (launches es)"
| "launches (e # es) = launches es"

text \<open>A run of the loop body leaves the loop by \<^verbatim>\<open>break\<close>, by \<^verbatim>\<open>return\<close> or by an exception
  that the \<^verbatim>\<open>except\<close> clause does not catch. A line ends the scan when the body leaves
  the loop on it; \<open>visited\<close> are the lines the loop reaches.\<close>

definition leaves :: "bool io \<Rightarrow> bool" where
  "leaves m = (case snd m of Inl e \<Rightarrow> e \<noteq> JSONDecodeError | Inr stop \<Rightarrow> stop)"

definition ends_scan :: "(string \<Rightarrow> bool io) \<Rightarrow> string \<Rightarrow> bool" where
  "ends_scan body line = leaves (body line)"

fun visited :: "(string \<Rightarrow> bool io) \<Rightarrow> string list \<Rightarrow> string list" where
  "visited body [] = []"
| "visited body (line # rest) = (if ends_scan body line then [line] else line # visited body rest)"

text \<open>The parser raised \<^verbatim>\<open>json.JSONDecodeError\<close> on the line.\<close>

definition malformed :: "(string \<Rightarrow> exn + json) \<Rightarrow> string \<Rightarrow> bool" where
  "malformed loads line = (loads line = Inl JSONDecodeError)"

text \<open>The line parses to a value whose \<^verbatim>\<open>.get('id')\<close> equals 2.\<close>

definition id_is_2 :: "(string \<Rightarrow> exn + json) \<Rightarrow> string \<Rightarrow> bool" where
  "id_is_2 loads line =
     (case loads line of
        Inl e \<Rightarrow> False
      | Inr r \<Rightarrow> (case py_get r ''id'' of Inl e \<Rightarrow> False | Inr v \<Rightarrow> py_eq_int v 2))"

text \<open>The line passes the guard of \<^verbatim>\<open>simple-mcp-test.py\<close> and its \<^verbatim>\<open>id\<close> equals 2.\<close>

definition apple_match :: "(string \<Rightarrow> exn + json) \<Rightarrow> string \<Rightarrow> bool" where
  "apple_match loads l = (looks_like_json l \<and> id_is_2 loads l)"

text \<open>An effect is quiet when it does not touch the container.\<close>

fun quiet :: "effect \<Rightarrow> bool" where
  "quiet (Run cmd inp t) = False"
| "quiet (Popen cmd) = False"
| "quiet (Communicate inp t) = False"
| "quiet Kill = False"
| "quiet _ = True"

section \<open>Facts about the model\<close>

lemma ends_scan_case:
  "ends_scan body line =
     (case snd (body line) of Inl e \<Rightarrow> e \<noteq> JSONDecodeError | Inr stop \<Rightarrow> stop)"
  by (simp add: ends_scan_def leaves_def)

subsection \<open>Splitting and encoding\<close>

lemma split_acc_line:
  "sep \<notin> set a \<Longrightarrow> split_acc sep cur (a @ sep # b) = (rev cur @ a) # split_acc sep [] b"
  by (induction a arbitrary: cur) auto

lemma py_split_line:
  "sep \<notin> set a \<Longrightarrow> py_split sep (a @ sep # b) = a # py_split sep b"
  by (simp add: py_split_def split_acc_line)

lemma py_split_Nil: "py_split sep [] = [[]]"
  by (simp add: py_split_def)

lemma digit_char_in: "digit_char d \<in> set ''0123456789abcdef''"
  unfolding digit_char_def by (rule nth_mem) simp

lemma digit_char_not_NL: "digit_char d \<noteq> NL"
proof
  assume "digit_char d = NL"
  with digit_char_in [of d] have "NL \<in> set ''0123456789abcdef''" by simp
  then show False by (simp add: NL_def)
qed

lemma digit_char_not_0A: "digit_char d \<noteq> CHR 0x0A" "CHR 0x0A \<noteq> digit_char d"
  using digit_char_not_NL [of d] by (auto simp: NL_def)

lemma dec_nat_no_NL: "NL \<notin> set (dec_nat n)"
proof (induction n rule: dec_nat.induct)
  case (1 n)
  show ?case
  proof (cases "n < 10")
    case True
    then show ?thesis using digit_char_not_NL [of n] by (subst dec_nat.simps) simp
  next
    case False
    then show ?thesis
      using 1 digit_char_not_NL [of "n mod 10"] by (subst dec_nat.simps) simp
  qed
qed

lemma dec_int_no_NL: "NL \<notin> set (dec_int i)"
  by (simp add: dec_int_def dec_nat_no_NL) (simp add: NL_def)

lemma escape_char_no_NL: "NL \<notin> set (escape_char c)"
proof (cases "32 \<le> (of_char c :: nat)")
  case True
  then have "c \<noteq> CHR 0x0A" by auto
  then show ?thesis
    by (simp add: escape_char_def NL_def DQ_def BSL_def digit_char_not_0A)
next
  case False
  then show ?thesis
    by (simp add: escape_char_def NL_def DQ_def BSL_def digit_char_not_0A)
qed

lemma quote_string_no_NL: "NL \<notin> set (quote_string s)"
  by (auto simp: quote_string_def escape_char_no_NL) (simp_all add: NL_def DQ_def)

lemma py_join_no_NL:
  "NL \<notin> set sep \<Longrightarrow> (\<And>x. x \<in> set xs \<Longrightarrow> NL \<notin> set x) \<Longrightarrow> NL \<notin> set (py_join sep xs)"
  by (induction sep xs rule: py_join.induct) auto

lemma json_dumps_no_NL: "NL \<notin> set (json_dumps v)"
proof (induction v)
  case (JArray xs)
  have "NL \<notin> set (py_join '', '' (map json_dumps xs))"
    by (rule py_join_no_NL) (use JArray in \<open>auto simp: NL_def\<close>)
  then show ?case by (simp add: NL_def)
next
  case (JObject kvs)
  have "NL \<notin> set (py_join '', '' (map (\<lambda>(k, v). quote_string k @ '': '' @ json_dumps v) kvs))"
  proof (rule py_join_no_NL)
    show "NL \<notin> set '', ''" by (simp add: NL_def)
  next
    fix x assume "x \<in> set (map (\<lambda>(k, v). quote_string k @ '': '' @ json_dumps v) kvs)"
    then obtain k v where kv: "(k, v) \<in> set kvs" and x: "x = quote_string k @ '': '' @ json_dumps v"
      by auto
    from kv JObject have "NL \<notin> set (json_dumps v)" by (auto simp: snds.simps)
    with x quote_string_no_NL [of k] show "NL \<notin> set x" by (simp add: NL_def)
  qed
  then show ?case by (simp add: NL_def)
qed (simp_all add: dec_int_no_NL quote_string_no_NL, simp_all add: NL_def)

lemma dumps_init_request:
  \<open>json_dumps init_request = ''{"jsonrpc": "2.0", "id": 1, "method": "initialize", "params": {"protocolVersion": "2024-11-05", "capabilities": {}, "clientInfo": {"name": "test-client", "version": "1.0.0"}}}''\<close>
  by code_simp

lemma dumps_init_notification:
  \<open>json_dumps init_notification = ''{"jsonrpc": "2.0", "method": "notifications/initialized"}''\<close>
  by code_simp

lemma mcp_input_lines:
  "py_split NL (mcp_input request) =
     [json_dumps init_request, json_dumps init_notification, json_dumps request, []]"
  by (simp add: mcp_input_def mcp_requests_def py_split_line json_dumps_no_NL py_split_Nil)

lemma simple_input_lines: "py_split NL simple_input_data = simple_requests @ [[]]"
  by code_simp

lemma requests_parse:
  "json_loads (json_dumps init_request) = Inr init_request"
  "json_loads (json_dumps init_notification) = Inr init_notification"
  "json_loads (json_dumps tools_list_request) = Inr tools_list_request"
  "json_loads (json_dumps cik_request) = Inr cik_request"
  "list_all (\<lambda>s. \<not> isl (json_loads s)) simple_requests"
  by code_simp+

subsection \<open>Runs and their parts\<close>

lemma fst_after: "fst (after t m) = t @ fst m"
  by (simp add: after_def)

lemma snd_after: "snd (after t m) = snd m"
  by (simp add: after_def)

lemma fst_io_bind:
  "fst (io_bind m k) = (case snd m of Inl e \<Rightarrow> fst m | Inr a \<Rightarrow> fst m @ fst (k a))"
  by (simp add: io_bind_def after_def split: sum.splits)

lemma snd_io_bind:
  "snd (io_bind m k) = (case snd m of Inl e \<Rightarrow> Inl e | Inr a \<Rightarrow> snd (k a))"
  by (simp add: io_bind_def after_def split: sum.splits)

lemma inputs_append: "inputs (a @ b) = inputs a @ inputs b"
  by (induction a rule: inputs.induct) auto

lemma launches_append: "launches (a @ b) = launches a + launches b"
  by (induction a rule: launches.induct) auto

lemma timeouts_append: "timeouts (a @ b) = timeouts a @ timeouts b"
  by (induction a rule: timeouts.induct) auto

lemma attempts_append: "attempts (a @ b) = attempts a @ attempts b"
  by (induction a rule: attempts.induct) auto

lemma printed_append: "printed (a @ b) = printed a @ printed b"
  by (simp add: printed_def)

subsection \<open>The scans do not touch the container\<close>

lemma quiet_lift: "list_all quiet (fst (lift r))"
  by (simp add: lift_def)

lemma quiet_emit: "quiet e \<Longrightarrow> list_all quiet (fst (emit e))"
  by (simp add: emit_def)

lemma quiet_bind:
  "list_all quiet (fst m) \<Longrightarrow> (\<And>a. list_all quiet (fst (k a))) \<Longrightarrow> list_all quiet (fst (io_bind m k))"
  by (simp add: io_bind_def after_def split: sum.splits)

lemma quiet_then:
  "list_all quiet (fst m) \<Longrightarrow> list_all quiet (fst k) \<Longrightarrow> list_all quiet (fst (io_then m k))"
  by (simp add: io_then_def quiet_bind)

lemma quiet_if:
  "list_all quiet (fst a) \<Longrightarrow> list_all quiet (fst b) \<Longrightarrow> list_all quiet (fst (if c then a else b))"
  by simp

lemmas quiet_intros = quiet_lift quiet_emit quiet_bind quiet_then quiet_if

lemma quiet_for_lines:
  "(\<And>l. list_all quiet (fst (body l))) \<Longrightarrow> list_all quiet (fst (for_lines body ls))"
  by (induction ls) (auto simp: after_def split: sum.splits)

lemma quiet_apple_body: "list_all quiet (fst (apple_body loads l))"
  unfolding apple_body_def by (intro quiet_intros) simp_all

lemma tool_entry_quiet: "tool_entry t = Inr p \<Longrightarrow> quiet p"
  by (auto simp: tool_entry_def split: sum.splits)

lemma quiet_print_tools: "list_all quiet (fst (print_tools ts))"
  by (induction ts) (auto simp: after_def tool_entry_quiet split: sum.splits)

lemma quiet_show_tools: "list_all quiet (fst (show_tools r))"
  unfolding show_tools_def by (intro quiet_intros quiet_print_tools) simp_all

lemma quiet_tools_body: "list_all quiet (fst (tools_body loads l))"
  unfolding tools_body_def by (intro quiet_intros quiet_show_tools) simp_all

lemma quiet_cik_body: "list_all quiet (fst (cik_body loads l))"
  unfolding cik_body_def by (intro quiet_intros) simp_all

lemma quiet_scans:
  "list_all quiet (fst (apple_scan loads ls))"
  "list_all quiet (fst (tools_scan loads ls))"
  "list_all quiet (fst (cik_scan loads ls))"
  by (simp_all add: apple_scan_def tools_scan_def cik_scan_def quiet_for_lines
      quiet_apple_body quiet_tools_body quiet_cik_body)

lemma quiet_inputs: "list_all quiet t \<Longrightarrow> inputs t = []"
  by (induction t rule: inputs.induct) auto

lemma quiet_launches: "list_all quiet t \<Longrightarrow> launches t = 0"
  by (induction t rule: launches.induct) auto

lemma quiet_timeouts: "list_all quiet t \<Longrightarrow> timeouts t = []"
  by (induction t rule: timeouts.induct) auto

lemma quiet_process_stdout:
  "(\<And>ls. list_all quiet (fst (scan ls))) \<Longrightarrow> list_all quiet (fst (process_stdout scan stdout))"
  by (simp add: process_stdout_def split: option.splits)

subsection \<open>The standard input of each start\<close>

lemma inputs_apple_try: "inputs (fst (apple_try loads docker)) = [simple_input_data]"
  using quiet_inputs [OF quiet_scans(1)]
  by (simp add: apple_try_def fst_after inputs_append split: outcome.splits)

lemma inputs_apple: "inputs (test_apple_cik loads docker) = [simple_input_data]"
  by (simp add: test_apple_cik_def inputs_append inputs_apple_try apple_handler_def
      split: sum.splits)

lemma inputs_send:
  "inputs (fst (send_mcp_request docker k request)) =
     (case docker k (mcp_input request) of
        SpawnRaises e \<Rightarrow> []
      | CommRaises e \<Rightarrow> [mcp_input request]
      | Returns out err \<Rightarrow> [mcp_input request])"
  by (simp add: send_mcp_request_def split: outcome.splits)

lemma inputs_tools_test:
  "set (inputs (fst (tools_test loads docker))) \<subseteq> {mcp_input tools_list_request}"
  using quiet_inputs [OF quiet_process_stdout [of "tools_scan loads", OF quiet_scans(2)]]
  by (auto simp: tools_test_def io_then_def fst_io_bind emit_def inputs_append inputs_send
      split: sum.splits outcome.splits)

lemma inputs_cik_test:
  "set (inputs (fst (cik_test loads docker))) \<subseteq> {mcp_input cik_request}"
  using quiet_inputs [OF quiet_process_stdout [of "cik_scan loads", OF quiet_scans(3)]]
  by (auto simp: cik_test_def io_then_def fst_io_bind emit_def inputs_append inputs_send
      split: sum.splits outcome.splits)

lemma inputs_main:
  "set (inputs (fst (main loads docker))) \<subseteq> {mcp_input tools_list_request, mcp_input cik_request}"
  using inputs_tools_test [of loads docker] inputs_cik_test [of loads docker]
  by (auto simp: main_def io_then_def fst_io_bind inputs_append split: sum.splits)

section \<open>The claims\<close>

text \<open>
  C1. Each script writes exactly three newline-terminated JSON messages to the standard
  input of the container, in this order: the \<^verbatim>\<open>initialize\<close> request, the
  \<^verbatim>\<open>notifications/initialized\<close> notification, and one payload request. The first two are
  constants (with protocol version 2024-11-05), so the text written depends on the payload
  request alone. Split at the newline, the text of \<^verbatim>\<open>simple-mcp-test.py\<close> is its three
  constant lines and nothing after the last newline; the text \<^verbatim>\<open>send_mcp_request\<close> writes
  is the two constant lines, then the encoding of the request (which never contains a
  newline), and nothing after the last newline. That text is what \<^verbatim>\<open>test_apple_cik\<close>
  passes to its one start of the container, what \<^verbatim>\<open>send_mcp_request\<close> passes whenever the
  container started, and the main block of \<^verbatim>\<open>test-mcp.py\<close> passes no other text than the
  ones of its two requests. The constant messages and the two payloads of \<^verbatim>\<open>test-mcp.py\<close>
  are JSON: the parser reads each of them back.
\<close>

theorem stdin_is_three_json_lines:
  \<open>py_split NL simple_input_data =
      [''{"jsonrpc": "2.0", "id": 1, "method": "initialize", "params": {"protocolVersion": "2024-11-05", "capabilities": {}, "clientInfo": {"name": "test", "version": "1.0.0"}}}'',
       ''{"jsonrpc": "2.0", "method": "notifications/initialized"}'',
       ''{"jsonrpc": "2.0", "id": 2, "method": "tools/call", "params": {"name": "get_cik_by_ticker", "arguments": {"ticker": "AAPL"}}}'',
       []]
   \<and> py_split NL (mcp_input request) =
      [''{"jsonrpc": "2.0", "id": 1, "method": "initialize", "params": {"protocolVersion": "2024-11-05", "capabilities": {}, "clientInfo": {"name": "test-client", "version": "1.0.0"}}}'',
       ''{"jsonrpc": "2.0", "method": "notifications/initialized"}'',
       json_dumps request,
       []]
   \<and> NL \<notin> set (json_dumps request)
   \<and> inputs (test_apple_cik loads docker) = [simple_input_data]
   \<and> inputs (fst (send_mcp_request docker k request)) =
        (case docker k (mcp_input request) of
           SpawnRaises e \<Rightarrow> []
         | CommRaises e \<Rightarrow> [mcp_input request]
         | Returns out err \<Rightarrow> [mcp_input request])
   \<and> set (inputs (fst (main loads docker))) \<subseteq> {mcp_input tools_list_request, mcp_input cik_request}
   \<and> list_all (\<lambda>s. \<not> isl (json_loads s)) simple_requests
   \<and> json_loads (json_dumps init_request) = Inr init_request
   \<and> json_loads (json_dumps init_notification) = Inr init_notification
   \<and> json_loads (json_dumps tools_list_request) = Inr tools_list_request
   \<and> json_loads (json_dumps cik_request) = Inr cik_request\<close>
proof -
  have "py_split NL simple_input_data = simple_requests @ [[]]"
    by (rule simple_input_lines)
  moreover have "py_split NL (mcp_input request) =
      [json_dumps init_request, json_dumps init_notification, json_dumps request, []]"
    by (rule mcp_input_lines)
  ultimately show ?thesis
    using json_dumps_no_NL [of request] inputs_apple [of loads docker]
      inputs_send [of docker k request] inputs_main [of loads docker] requests_parse
    by (simp only: simple_requests_def dumps_init_request dumps_init_notification
        append.simps simp_thms)
qed

theorem stdin_is_three_json_lines_witness:
  \<open>py_split NL (mcp_input tools_list_request) =
      [''{"jsonrpc": "2.0", "id": 1, "method": "initialize", "params": {"protocolVersion": "2024-11-05", "capabilities": {}, "clientInfo": {"name": "test-client", "version": "1.0.0"}}}'',
       ''{"jsonrpc": "2.0", "method": "notifications/initialized"}'',
       ''{"jsonrpc": "2.0", "id": 2, "method": "tools/list"}'',
       []]
   \<and> inputs (fst (send_mcp_request (\<lambda>k inp. Returns [] []) 0 tools_list_request)) =
        [mcp_input tools_list_request]\<close>
proof -
  have d: \<open>json_dumps tools_list_request = ''{"jsonrpc": "2.0", "id": 2, "method": "tools/list"}''\<close>
    by code_simp
  show ?thesis
    using stdin_is_three_json_lines
      [where request = tools_list_request and docker = "\<lambda>k inp. Returns [] []" and k = 0]
    by (simp add: d)
qed

subsection \<open>Lines on which the parser raises\<close>

lemmas io_defs = io_then_def io_bind_def emit_def lift_def after_def

lemma for_lines_continue:
  "snd (body l) = Inl JSONDecodeError \<or> snd (body l) = Inr False \<Longrightarrow>
   for_lines body (l # rest) = after (fst (body l)) (for_lines body rest)"
  by auto

lemma apple_body_malformed:
  "malformed loads l \<Longrightarrow>
   apple_body loads l = (if looks_like_json l then ([JsonLoads l], Inl JSONDecodeError) else ([], Inr False))"
  by (simp add: apple_body_def malformed_def io_defs)

lemma tools_body_malformed:
  "malformed loads l \<Longrightarrow> tools_body loads l = ([JsonLoads l], Inl JSONDecodeError)"
  by (simp add: tools_body_def malformed_def io_defs)

lemma cik_body_malformed:
  "malformed loads l \<Longrightarrow> cik_body loads l = ([JsonLoads l], Inl JSONDecodeError)"
  by (simp add: cik_body_def malformed_def io_defs)

lemma for_lines_drop_silent:
  assumes "\<And>l. P l \<Longrightarrow> (snd (body l) = Inl JSONDecodeError \<or> snd (body l) = Inr False)
             \<and> printed (fst (body l)) = []"
  shows "printed (fst (for_lines body (filter (\<lambda>l. \<not> P l) ls))) = printed (fst (for_lines body ls))
       \<and> snd (for_lines body (filter (\<lambda>l. \<not> P l) ls)) = snd (for_lines body ls)"
proof (induction ls)
  case Nil
  show ?case by simp
next
  case (Cons l ls)
  show ?case
  proof (cases "P l")
    case True
    with assms [of l] Cons show ?thesis
      by (auto simp: after_def printed_append)
  next
    case False
    with Cons show ?thesis
      by (auto simp: after_def printed_append split: sum.splits)
  qed
qed

text \<open>
  C2. Parsing of the container's output is best-effort per line. A line on which the
  parser raises \<^verbatim>\<open>json.JSONDecodeError\<close> is skipped without a print and the scan goes on
  with the next line, in all three loops (the one of \<^verbatim>\<open>simple-mcp-test.py\<close> and the two of
  \<^verbatim>\<open>test-mcp.py\<close>). Such lines never abort the scan and never keep a later line from being
  matched: taking all of them out of the output changes neither what the scan prints nor
  how it ends.
\<close>

theorem malformed_lines_are_skipped:
  "(malformed loads l \<longrightarrow>
      apple_scan loads (l # rest) =
        after (if looks_like_json l then [JsonLoads l] else []) (apple_scan loads rest)
    \<and> tools_scan loads (l # rest) = after [JsonLoads l] (tools_scan loads rest)
    \<and> cik_scan loads (l # rest) = after [JsonLoads l] (cik_scan loads rest))
   \<and> printed (fst (apple_scan loads (filter (\<lambda>l. \<not> malformed loads l) ls))) =
       printed (fst (apple_scan loads ls))
   \<and> snd (apple_scan loads (filter (\<lambda>l. \<not> malformed loads l) ls)) = snd (apple_scan loads ls)
   \<and> printed (fst (tools_scan loads (filter (\<lambda>l. \<not> malformed loads l) ls))) =
       printed (fst (tools_scan loads ls))
   \<and> snd (tools_scan loads (filter (\<lambda>l. \<not> malformed loads l) ls)) = snd (tools_scan loads ls)
   \<and> printed (fst (cik_scan loads (filter (\<lambda>l. \<not> malformed loads l) ls))) =
       printed (fst (cik_scan loads ls))
   \<and> snd (cik_scan loads (filter (\<lambda>l. \<not> malformed loads l) ls)) = snd (cik_scan loads ls)"
proof -
  have step: "malformed loads l \<longrightarrow>
      apple_scan loads (l # rest) =
        after (if looks_like_json l then [JsonLoads l] else []) (apple_scan loads rest)
    \<and> tools_scan loads (l # rest) = after [JsonLoads l] (tools_scan loads rest)
    \<and> cik_scan loads (l # rest) = after [JsonLoads l] (cik_scan loads rest)"
    by (simp add: apple_scan_def tools_scan_def cik_scan_def apple_body_malformed
        tools_body_malformed cik_body_malformed after_def)
  have a: "printed (fst (apple_scan loads (filter (\<lambda>l. \<not> malformed loads l) ls))) =
       printed (fst (apple_scan loads ls))
     \<and> snd (apple_scan loads (filter (\<lambda>l. \<not> malformed loads l) ls)) = snd (apple_scan loads ls)"
    unfolding apple_scan_def
    by (rule for_lines_drop_silent) (simp add: apple_body_malformed printed_def)
  have t: "printed (fst (tools_scan loads (filter (\<lambda>l. \<not> malformed loads l) ls))) =
       printed (fst (tools_scan loads ls))
     \<and> snd (tools_scan loads (filter (\<lambda>l. \<not> malformed loads l) ls)) = snd (tools_scan loads ls)"
    unfolding tools_scan_def
    by (rule for_lines_drop_silent) (simp add: tools_body_malformed printed_def)
  have c: "printed (fst (cik_scan loads (filter (\<lambda>l. \<not> malformed loads l) ls))) =
       printed (fst (cik_scan loads ls))
     \<and> snd (cik_scan loads (filter (\<lambda>l. \<not> malformed loads l) ls)) = snd (cik_scan loads ls)"
    unfolding cik_scan_def
    by (rule for_lines_drop_silent) (simp add: cik_body_malformed printed_def)
  from step a t c show ?thesis by blast
qed

theorem malformed_lines_are_skipped_witness:
  \<open>malformed json_loads ''{"id": 2''
   \<and> printed (fst (apple_scan json_loads
         [''{"id": 2'', ''{"id": 2, "result": {"content": 7, "tools": []}}''])) =
       [Print ''SUCCESS! Apple's CIK data:'',
        PrintJson (JObject [(''id'', JInt 2),
                            (''result'', JObject [(''content'', JInt 7), (''tools'', JArray [])])])]
   \<and> printed (fst (tools_scan json_loads
         [''{"id": 2'', ''{"id": 2, "result": {"content": 7, "tools": []}}''])) =
       [Print ''Found 0 tools:'']
   \<and> printed (fst (cik_scan json_loads
         [''{"id": 2'', ''{"id": 2, "result": {"content": 7, "tools": []}}''])) =
       [Print ''Apple (AAPL) CIK lookup result:'', PrintJson (JInt 7)]\<close>
proof -
  have m: \<open>malformed json_loads ''{"id": 2''\<close>
    by code_simp
  have a: \<open>printed (fst (apple_scan json_loads [''{"id": 2, "result": {"content": 7, "tools": []}}''])) =
       [Print ''SUCCESS! Apple's CIK data:'',
        PrintJson (JObject [(''id'', JInt 2),
                            (''result'', JObject [(''content'', JInt 7), (''tools'', JArray [])])])]\<close>
    by code_simp
  have t: \<open>printed (fst (tools_scan json_loads [''{"id": 2, "result": {"content": 7, "tools": []}}''])) =
       [Print ''Found 0 tools:'']\<close>
    by code_simp
  have c: \<open>printed (fst (cik_scan json_loads [''{"id": 2, "result": {"content": 7, "tools": []}}''])) =
       [Print ''Apple (AAPL) CIK lookup result:'', PrintJson (JInt 7)]\<close>
    by code_simp
  have p: "printed (fst (after u m)) = printed u @ printed (fst m)" for u and m :: "unit io"
    by (simp add: fst_after printed_append)
  have q: "printed (if b then [JsonLoads x] else []) = []" "printed [JsonLoads x] = []" for b x
    by (simp_all add: printed_def)
  from malformed_lines_are_skipped
    [of json_loads \<open>''{"id": 2''\<close> \<open>[''{"id": 2, "result": {"content": 7, "tools": []}}'']\<close>] m
  show ?thesis
    by (simp only: p q a t c append_Nil simp_thms)
qed

subsection \<open>The loop of \<^verbatim>\<open>test_apple_cik\<close>\<close>

lemma apple_body_unfold:
  "apple_body loads l =
     (if looks_like_json l then
        (case loads l of
           Inl e \<Rightarrow> ([JsonLoads l], Inl e)
         | Inr r \<Rightarrow>
             (case py_get r ''id'' of
                Inl e \<Rightarrow> ([JsonLoads l], Inl e)
              | Inr v \<Rightarrow>
                  if py_eq_int v 2
                  then ([JsonLoads l, Print ''SUCCESS! Apple's CIK data:'', PrintJson r], Inr True)
                  else ([JsonLoads l], Inr False)))
      else ([], Inr False))"
  by (simp add: apple_body_def io_defs split: sum.splits)

lemma apple_scan_Nil: "apple_scan loads [] = ([], Inr ())"
  by (simp add: apple_scan_def)

lemma apple_scan_match:
  "apple_match loads l \<Longrightarrow> loads l = Inr r \<Longrightarrow>
   apple_scan loads (l # rest) =
     ([JsonLoads l, Print ''SUCCESS! Apple's CIK data:'', PrintJson r], Inr ())"
  by (auto simp: apple_scan_def apple_body_unfold apple_match_def id_is_2_def split: sum.splits)

lemma apple_match_parsed: "apple_match loads l \<Longrightarrow> \<exists>r. loads l = Inr r"
  by (auto simp: apple_match_def id_is_2_def split: sum.splits)

lemma apple_scan_pass:
  assumes "\<not> apple_match loads l"
    and "looks_like_json l \<longrightarrow> malformed loads l \<or> (\<exists>kvs. loads l = Inr (JObject kvs))"
  shows "apple_scan loads (l # rest) =
           after (if looks_like_json l then [JsonLoads l] else []) (apple_scan loads rest)"
  using assms
  by (auto simp: apple_scan_def apple_body_unfold apple_match_def id_is_2_def malformed_def
      after_def split: sum.splits)

lemma attempts_printed_simps:
  "attempts (if b then [JsonLoads l] else []) = (if b then [l] else [])"
  "printed (if b then [JsonLoads l] else []) = []"
  by (simp_all add: printed_def)

text \<open>
  C3, as amended. \<^verbatim>\<open>simple-mcp-test.py\<close> extracts at most one result. Among the lines of
  the output that are not blank and start with an opening brace (on which the parser either
  raises \<^verbatim>\<open>JSONDecodeError\<close> or returns an object), it prints as matched result the first
  one, in line order, that parses to an object whose \<^verbatim>\<open>id\<close> equals 2, and then stops: no
  later line is handed to the parser. If there is no such line it prints no result.
  A line whose object has another \<^verbatim>\<open>id\<close> is never printed as a matched result.
\<close>

theorem apple_scan_prints_first_match:
  assumes "\<forall>l\<in>set ls. looks_like_json l \<longrightarrow>
             malformed loads l \<or> (\<exists>kvs. loads l = Inr (JObject kvs))"
  shows "(case find (\<lambda>l. looks_like_json l \<and> id_is_2 loads l) ls of
            None \<Rightarrow>
              printed (fst (apple_scan loads ls)) = []
              \<and> attempts (fst (apple_scan loads ls)) = filter looks_like_json ls
          | Some l \<Rightarrow>
              (\<exists>r. loads l = Inr r
                 \<and> printed (fst (apple_scan loads ls)) =
                     [Print ''SUCCESS! Apple's CIK data:'', PrintJson r])
              \<and> attempts (fst (apple_scan loads ls)) =
                  filter looks_like_json
                    (takeWhile (\<lambda>l. \<not> (looks_like_json l \<and> id_is_2 loads l)) ls) @ [l])
         \<and> snd (apple_scan loads ls) = Inr ()"
  using assms
proof (induction ls)
  case Nil
  show ?case by (simp add: apple_scan_Nil printed_def)
next
  case (Cons l ls)
  show ?case
  proof (cases "apple_match loads l")
    case True
    then obtain r where r: "loads l = Inr r" using apple_match_parsed by blast
    from True have "looks_like_json l \<and> id_is_2 loads l" by (simp add: apple_match_def)
    then show ?thesis
      using apple_scan_match [OF True r] r by (simp add: printed_def)
  next
    case False
    then have nm: "\<not> (looks_like_json l \<and> id_is_2 loads l)" by (simp add: apple_match_def)
    from Cons.prems have
      wb: "looks_like_json l \<longrightarrow> malformed loads l \<or> (\<exists>kvs. loads l = Inr (JObject kvs))"
      by simp
    from Cons.prems have ih_pre: "\<forall>l\<in>set ls. looks_like_json l \<longrightarrow>
             malformed loads l \<or> (\<exists>kvs. loads l = Inr (JObject kvs))" by simp
    note ih = Cons.IH [OF ih_pre]
    have step: "apple_scan loads (l # ls) =
           after (if looks_like_json l then [JsonLoads l] else []) (apple_scan loads ls)"
      by (rule apple_scan_pass [OF False wb])
    show ?thesis
      using ih nm
      by (auto simp: step fst_after snd_after printed_append attempts_append
          attempts_printed_simps split: option.splits)
  qed
qed


theorem apple_scan_prints_first_match_witness:
  \<open>printed (fst (apple_scan json_loads
       [''{"id": 1, "result": {}}'', '' {"id": 2, "n": 1}'', ''{"id": 2, "n": 2}''])) =
     [Print ''SUCCESS! Apple's CIK data:'', PrintJson (JObject [(''id'', JInt 2), (''n'', JInt 2)])]
   \<and> attempts (fst (apple_scan json_loads
       [''{"id": 1, "result": {}}'', '' {"id": 2, "n": 1}'', ''{"id": 2, "n": 2}''])) =
     [''{"id": 1, "result": {}}'', ''{"id": 2, "n": 2}'']
   \<and> snd (apple_scan json_loads
       [''{"id": 1, "result": {}}'', '' {"id": 2, "n": 1}'', ''{"id": 2, "n": 2}'']) = Inr ()\<close>
proof -
  have l1: \<open>json_loads ''{"id": 1, "result": {}}'' = Inr (JObject [(''id'', JInt 1), (''result'', JObject [])])\<close>
    by code_simp
  have l2: \<open>\<not> looks_like_json '' {"id": 2, "n": 1}''\<close>
    by code_simp
  have l3: \<open>json_loads ''{"id": 2, "n": 2}'' = Inr (JObject [(''id'', JInt 2), (''n'', JInt 2)])\<close>
    by code_simp
  have wb: \<open>\<forall>l\<in>set [''{"id": 1, "result": {}}'', '' {"id": 2, "n": 1}'', ''{"id": 2, "n": 2}''].
      looks_like_json l \<longrightarrow> malformed json_loads l \<or> (\<exists>kvs. json_loads l = Inr (JObject kvs))\<close>
    by (simp add: l1 l2 l3)
  have f: \<open>find (\<lambda>l. looks_like_json l \<and> id_is_2 json_loads l)
      [''{"id": 1, "result": {}}'', '' {"id": 2, "n": 1}'', ''{"id": 2, "n": 2}''] =
      Some ''{"id": 2, "n": 2}''\<close>
    by code_simp
  have tw: \<open>filter looks_like_json (takeWhile (\<lambda>l. \<not> (looks_like_json l \<and> id_is_2 json_loads l))
      [''{"id": 1, "result": {}}'', '' {"id": 2, "n": 1}'', ''{"id": 2, "n": 2}'']) =
      [''{"id": 1, "result": {}}'']\<close>
    by code_simp
  from apple_scan_prints_first_match [OF wb] show ?thesis
    by (simp only: f tw l3 option.case) simp
qed

text \<open>
  C3 as the spec states it does not hold: the first line of the output that parses as a
  JSON object with \<^verbatim>\<open>id\<close> 2 need not be the one printed. In the output below the second
  line is such a line (the parser accepts white space before the brace), but it does not
  start with the brace, so the script passes over it and prints the third line.
\<close>

theorem first_id_2_line_not_printed_counterexample:
  \<open>output_lines (''{"id": 1, "result": {}}'' @ [NL] @ '' {"id": 2, "n": 1}'' @ [NL] @
                 ''{"id": 2, "n": 2}'' @ [NL]) =
     [''{"id": 1, "result": {}}'', '' {"id": 2, "n": 1}'', ''{"id": 2, "n": 2}'']
   \<and> json_loads ''{"id": 1, "result": {}}'' =
       Inr (JObject [(''id'', JInt 1), (''result'', JObject [])])
   \<and> json_loads '' {"id": 2, "n": 1}'' = Inr (JObject [(''id'', JInt 2), (''n'', JInt 1)])
   \<and> printed (fst (apple_scan json_loads
        (output_lines (''{"id": 1, "result": {}}'' @ [NL] @ '' {"id": 2, "n": 1}'' @ [NL] @
                       ''{"id": 2, "n": 2}'' @ [NL])))) =
       [Print ''SUCCESS! Apple's CIK data:'',
        PrintJson (JObject [(''id'', JInt 2), (''n'', JInt 2)])]\<close>
  by code_simp

subsection \<open>Which lines reach the parser\<close>

lemma for_lines_visited:
  "fst (for_lines body ls) = concat (map (\<lambda>l. fst (body l)) (visited body ls))"
  by (induction ls) (auto simp: ends_scan_case fst_after split: sum.splits)

lemma visited_all: "list_all (\<lambda>l. \<not> ends_scan body l) ls \<Longrightarrow> visited body ls = ls"
  by (induction ls) auto

lemma only_lift: "list_all P (fst (lift r))"
  by (simp add: lift_def)

lemma only_emit: "P e \<Longrightarrow> list_all P (fst (emit e))"
  by (simp add: emit_def)

lemma only_bind:
  "list_all P (fst m) \<Longrightarrow> (\<And>a. list_all P (fst (k a))) \<Longrightarrow> list_all P (fst (io_bind m k))"
  by (simp add: io_bind_def after_def split: sum.splits)

lemma only_then:
  "list_all P (fst m) \<Longrightarrow> list_all P (fst k) \<Longrightarrow> list_all P (fst (io_then m k))"
  by (simp add: io_then_def only_bind)

lemma only_if:
  "list_all P (fst a) \<Longrightarrow> list_all P (fst b) \<Longrightarrow> list_all P (fst (if c then a else b))"
  by simp

lemmas only_intros = only_lift only_emit only_bind only_then only_if

lemma tool_entry_print: "tool_entry t = Inr p \<Longrightarrow> is_print p"
  by (auto simp: tool_entry_def split: sum.splits)

lemma print_tools_prints: "list_all is_print (fst (print_tools ts))"
  by (induction ts) (auto simp: after_def tool_entry_print split: sum.splits)

lemma show_tools_prints: "list_all is_print (fst (show_tools r))"
  unfolding show_tools_def by (intro only_intros print_tools_prints) simp_all

lemma prints_no_attempts: "list_all is_print t \<Longrightarrow> attempts t = []"
  by (induction t rule: attempts.induct) auto

lemma fst_emit_then: "fst (io_then (emit e) m) = e # fst m"
  by (simp add: io_defs)

lemma attempts_tools_body: "attempts (fst (tools_body loads l)) = [l]"
proof -
  have "list_all is_print (fst (io_bind (lift (loads l)) (\<lambda>response.
          io_bind (lift (in_result ''tools'' response)) (\<lambda>found.
            if found then show_tools response else lift (Inr False)))))"
    by (intro only_intros show_tools_prints)
  then show ?thesis
    by (simp add: tools_body_def fst_emit_then prints_no_attempts)
qed

lemma attempts_cik_body: "attempts (fst (cik_body loads l)) = [l]"
proof -
  have "list_all is_print (fst (io_bind (lift (loads l)) (\<lambda>response.
          io_bind (lift (in_result ''content'' response)) (\<lambda>has_content.
            if has_content then
              io_then (emit (Print ''Apple (AAPL) CIK lookup result:''))
                (io_bind (lift (py_getitem response ''result'')) (\<lambda>r.
                 io_bind (lift (py_getitem r ''content'')) (\<lambda>c.
                 io_then (emit (PrintJson c)) (lift (Inr True)))))
            else
              io_bind (lift (result_with_id_3 response)) (\<lambda>is_ours.
                if is_ours then
                  io_then (emit (Print ''Apple (AAPL) CIK lookup result:''))
                    (io_bind (lift (py_getitem response ''result'')) (\<lambda>r.
                     io_then (emit (PrintJson r)) (lift (Inr True))))
                else lift (Inr False))))))"
    by (intro only_intros) simp_all
  then show ?thesis
    by (simp add: cik_body_def fst_emit_then prints_no_attempts)
qed

lemma attempts_apple_body:
  "attempts (fst (apple_body loads l)) = (if looks_like_json l then [l] else [])"
  by (simp add: apple_body_unfold split: sum.splits)

lemma attempts_concat_map:
  "attempts (concat (map f ls)) = concat (map (\<lambda>l. attempts (f l)) ls)"
  by (induction ls) (simp_all add: attempts_append)

lemma concat_map_single: "concat (map (\<lambda>l. [l]) ls) = ls"
  by (induction ls) simp_all

lemma concat_map_filter: "concat (map (\<lambda>l. if P l then [l] else []) ls) = filter P ls"
  by (induction ls) simp_all

text \<open>
  C4, as amended. \<^verbatim>\<open>test-mcp.py\<close> attempts to parse every line of the output, whatever
  its first characters, in order, up to and including the line that ends the scan (by a
  match or by an exception that is not caught); when no line ends the scan, every line is
  parsed. \<^verbatim>\<open>simple-mcp-test.py\<close> attempts to parse only those of these lines that are not
  blank and start with an opening brace.
\<close>

theorem lines_handed_to_the_parser:
  "attempts (fst (tools_scan loads ls)) = visited (tools_body loads) ls
   \<and> attempts (fst (cik_scan loads ls)) = visited (cik_body loads) ls
   \<and> attempts (fst (apple_scan loads ls)) = filter looks_like_json (visited (apple_body loads) ls)
   \<and> (list_all (\<lambda>l. \<not> ends_scan (tools_body loads) l) ls \<longrightarrow>
        attempts (fst (tools_scan loads ls)) = ls)
   \<and> (list_all (\<lambda>l. \<not> ends_scan (cik_body loads) l) ls \<longrightarrow>
        attempts (fst (cik_scan loads ls)) = ls)
   \<and> (list_all (\<lambda>l. \<not> ends_scan (apple_body loads) l) ls \<longrightarrow>
        attempts (fst (apple_scan loads ls)) = filter looks_like_json ls)"
proof -
  have t: "attempts (fst (tools_scan loads ls)) = visited (tools_body loads) ls"
    by (simp add: tools_scan_def for_lines_visited attempts_concat_map attempts_tools_body
        concat_map_single)
  have c: "attempts (fst (cik_scan loads ls)) = visited (cik_body loads) ls"
    by (simp add: cik_scan_def for_lines_visited attempts_concat_map attempts_cik_body
        concat_map_single)
  have a: "attempts (fst (apple_scan loads ls)) =
      filter looks_like_json (visited (apple_body loads) ls)"
    by (simp add: apple_scan_def for_lines_visited attempts_concat_map attempts_apple_body
        concat_map_filter)
  from t c a show ?thesis
    by (simp add: visited_all)
qed

theorem lines_handed_to_the_parser_witness:
  \<open>attempts (fst (tools_scan json_loads [''{"id": 1, "result": {}}'', '' {"id": 2}''])) =
     [''{"id": 1, "result": {}}'', '' {"id": 2}'']
   \<and> attempts (fst (cik_scan json_loads [''{"id": 1}'', '' {"id": 2}''])) =
     [''{"id": 1}'', '' {"id": 2}'']
   \<and> attempts (fst (apple_scan json_loads [''{"id": 1, "result": {}}'', '' {"id": 2}''])) =
     [''{"id": 1, "result": {}}'']\<close>
proof -
  have t: \<open>list_all (\<lambda>l. \<not> ends_scan (tools_body json_loads) l)
      [''{"id": 1, "result": {}}'', '' {"id": 2}'']\<close>
    by code_simp
  have c: \<open>list_all (\<lambda>l. \<not> ends_scan (cik_body json_loads) l) [''{"id": 1}'', '' {"id": 2}'']\<close>
    by code_simp
  have a: \<open>list_all (\<lambda>l. \<not> ends_scan (apple_body json_loads) l)
      [''{"id": 1, "result": {}}'', '' {"id": 2}'']\<close>
    by code_simp
  have f: \<open>filter looks_like_json [''{"id": 1, "result": {}}'', '' {"id": 2}''] =
      [''{"id": 1, "result": {}}'']\<close>
    by code_simp
  from lines_handed_to_the_parser [of json_loads \<open>[''{"id": 1, "result": {}}'', '' {"id": 2}'']\<close>]
    lines_handed_to_the_parser [of json_loads \<open>[''{"id": 1}'', '' {"id": 2}'']\<close>]
    t c a f
  show ?thesis by simp
qed

text \<open>
  C4 as the spec states it does not hold for \<^verbatim>\<open>simple-mcp-test.py\<close>: the second line of
  the output below is valid JSON (an object with \<^verbatim>\<open>id\<close> 2, after one space), but the script
  never hands it to the parser and reports no match.
\<close>

theorem valid_json_line_not_parsed_counterexample:
  \<open>json_loads '' {"id": 2}'' = Inr (JObject [(''id'', JInt 2)])
   \<and> attempts (test_apple_cik json_loads
        (\<lambda>k inp. Returns (''{"id": 1, "result": {}}'' @ [NL] @ '' {"id": 2}'' @ [NL]) [])) =
       [''{"id": 1, "result": {}}'']
   \<and> printed (fst (apple_scan json_loads
        (output_lines (''{"id": 1, "result": {}}'' @ [NL] @ '' {"id": 2}'' @ [NL])))) = []\<close>
  by code_simp

subsection \<open>Launch calls and their timeouts\<close>

lemma launches_send: "launches (fst (send_mcp_request docker k request)) = 1"
  by (simp add: send_mcp_request_def split: outcome.splits)

lemma timeouts_send:
  "timeouts (fst (send_mcp_request docker k request)) =
     (case docker k (mcp_input request) of
        SpawnRaises e \<Rightarrow> []
      | CommRaises e \<Rightarrow> [30]
      | Returns out err \<Rightarrow> [30])"
  by (simp add: send_mcp_request_def split: outcome.splits)

lemma send_timeout:
  "docker k (mcp_input request) = CommRaises TimeoutExpired \<Longrightarrow>
   send_mcp_request docker k request =
     ([Popen docker_cmd, Communicate (mcp_input request) 30, Kill], Inr (None, ''Timeout''))"
  by (simp add: send_mcp_request_def)

lemma apple_try_launches: "launches (fst (apple_try loads docker)) = 1"
  using quiet_launches [OF quiet_scans(1)]
  by (simp add: apple_try_def fst_after launches_append split: outcome.splits)

lemma apple_try_timeouts: "timeouts (fst (apple_try loads docker)) = [15]"
  using quiet_timeouts [OF quiet_scans(1)]
  by (simp add: apple_try_def fst_after timeouts_append split: outcome.splits)

lemma apple_launches: "launches (test_apple_cik loads docker) = 1"
  by (simp add: test_apple_cik_def launches_append apple_try_launches apple_handler_def
      split: sum.splits)

lemma apple_timeouts: "timeouts (test_apple_cik loads docker) = [15]"
  by (simp add: test_apple_cik_def timeouts_append apple_try_timeouts apple_handler_def
      split: sum.splits)

lemma apple_timeout:
  "docker 0 simple_input_data = CommRaises TimeoutExpired \<Longrightarrow>
   test_apple_cik loads docker = [Run docker_cmd simple_input_data 15, Print ''Request timed out'']"
  by (simp add: test_apple_cik_def apple_try_def after_def apple_handler_def)

lemma tools_test_launches: "launches (fst (tools_test loads docker)) = 1"
  using quiet_launches [OF quiet_process_stdout [of "tools_scan loads", OF quiet_scans(2)]]
  by (simp add: tools_test_def io_then_def fst_io_bind emit_def launches_append launches_send
      split: sum.splits)

lemma cik_test_launches: "launches (fst (cik_test loads docker)) = 1"
  using quiet_launches [OF quiet_process_stdout [of "cik_scan loads", OF quiet_scans(3)]]
  by (simp add: cik_test_def io_then_def fst_io_bind emit_def launches_append launches_send
      split: sum.splits)

lemma main_launches:
  "launches (fst (main loads docker)) =
     (case snd (tools_test loads docker) of Inl e \<Rightarrow> 1 | Inr u \<Rightarrow> 2)"
  by (simp add: main_def io_then_def fst_io_bind launches_append tools_test_launches cik_test_launches
      split: sum.splits)

lemma tools_test_timeouts: "list_all (\<lambda>t. t = 30) (timeouts (fst (tools_test loads docker)))"
  using quiet_timeouts [OF quiet_process_stdout [of "tools_scan loads", OF quiet_scans(2)]]
  by (simp add: tools_test_def io_then_def fst_io_bind emit_def timeouts_append timeouts_send
      split: sum.splits outcome.splits)

lemma cik_test_timeouts: "list_all (\<lambda>t. t = 30) (timeouts (fst (cik_test loads docker)))"
  using quiet_timeouts [OF quiet_process_stdout [of "cik_scan loads", OF quiet_scans(3)]]
  by (simp add: cik_test_def io_then_def fst_io_bind emit_def timeouts_append timeouts_send
      split: sum.splits outcome.splits)

lemma main_timeouts: "list_all (\<lambda>t. t = 30) (timeouts (fst (main loads docker)))"
  using tools_test_timeouts [of loads docker] cik_test_timeouts [of loads docker]
  by (simp add: main_def io_then_def fst_io_bind timeouts_append split: sum.splits)

lemma tools_test_timeout:
  "docker 0 (mcp_input tools_list_request) = CommRaises TimeoutExpired \<Longrightarrow>
   tools_test loads docker =
     ([Print ''=== Testing MCP Tools List ==='', Popen docker_cmd,
       Communicate (mcp_input tools_list_request) 30, Kill], Inr ())"
  by (simp add: tools_test_def send_timeout io_defs process_stdout_def)

lemma cik_test_timeout:
  "docker 1 (mcp_input cik_request) = CommRaises TimeoutExpired \<Longrightarrow>
   cik_test loads docker =
     ([Print (NL # ''=== Testing Company CIK Lookup ===''), Popen docker_cmd,
       Communicate (mcp_input cik_request) 30, Kill], Inr ())"
  by (simp add: cik_test_def send_timeout io_defs process_stdout_def)

text \<open>
  C5. Every invocation of the subprocess carries a timeout: 15 seconds in
  \<^verbatim>\<open>simple-mcp-test.py\<close>, 30 seconds in \<^verbatim>\<open>test-mcp.py\<close>. When the timeout expires the handling
  is a single run-and-kill: \<^verbatim>\<open>send_mcp_request\<close> kills the process and returns
  \<^verbatim>\<open>(None, "Timeout")\<close> instead of raising, and \<^verbatim>\<open>test_apple_cik\<close> prints
  \<^verbatim>\<open>Request timed out\<close> and ends. Neither script retries or re-invokes the container on a
  timeout: \<^verbatim>\<open>test_apple_cik\<close> and every call of \<^verbatim>\<open>send_mcp_request\<close> make exactly one launch call
  (\<^verbatim>\<open>subprocess.run\<close>, \<^verbatim>\<open>subprocess.Popen\<close>), whether the timeout expires or not, and the run of
  a timed-out call ends with the kill, or with the message, with no further launch. The main
  block of \<^verbatim>\<open>test-mcp.py\<close> calls \<^verbatim>\<open>send_mcp_request\<close> once for each test it reaches, timeout
  or not, and a test whose request timed out ends with the kill.
\<close>

theorem timeout_is_single_run_and_kill:
  "launches (test_apple_cik loads docker) = 1
   \<and> timeouts (test_apple_cik loads docker) = [15]
   \<and> (docker 0 simple_input_data = CommRaises TimeoutExpired \<longrightarrow>
        test_apple_cik loads docker =
          [Run docker_cmd simple_input_data 15, Print ''Request timed out''])
   \<and> launches (fst (send_mcp_request docker k request)) = 1
   \<and> timeouts (fst (send_mcp_request docker k request)) =
        (case docker k (mcp_input request) of
           SpawnRaises e \<Rightarrow> []
         | CommRaises e \<Rightarrow> [30]
         | Returns out err \<Rightarrow> [30])
   \<and> (docker k (mcp_input request) = CommRaises TimeoutExpired \<longrightarrow>
        send_mcp_request docker k request =
          ([Popen docker_cmd, Communicate (mcp_input request) 30, Kill], Inr (None, ''Timeout'')))
   \<and> list_all (\<lambda>t. t = 30) (timeouts (fst (main loads docker)))
   \<and> launches (fst (main loads docker)) =
        (case snd (tools_test loads docker) of Inl e \<Rightarrow> 1 | Inr u \<Rightarrow> 2)
   \<and> (docker 0 (mcp_input tools_list_request) = CommRaises TimeoutExpired \<longrightarrow>
        tools_test loads docker =
          ([Print ''=== Testing MCP Tools List ==='', Popen docker_cmd,
            Communicate (mcp_input tools_list_request) 30, Kill], Inr ()))
   \<and> (docker 1 (mcp_input cik_request) = CommRaises TimeoutExpired \<longrightarrow>
        cik_test loads docker =
          ([Print (NL # ''=== Testing Company CIK Lookup ===''), Popen docker_cmd,
            Communicate (mcp_input cik_request) 30, Kill], Inr ()))"
  using apple_launches [of loads docker] apple_timeouts [of loads docker]
    apple_timeout [of docker loads] launches_send [of docker k request]
    timeouts_send [of docker k request] send_timeout [of docker k request]
    main_timeouts [of loads docker] main_launches [of loads docker]
    tools_test_timeout [of docker loads] cik_test_timeout [of docker loads]
  by simp

theorem timeout_is_single_run_and_kill_witness:
  "test_apple_cik json_loads (\<lambda>k inp. CommRaises TimeoutExpired) =
     [Run docker_cmd simple_input_data 15, Print ''Request timed out'']
   \<and> send_mcp_request (\<lambda>k inp. CommRaises TimeoutExpired) 0 cik_request =
     ([Popen docker_cmd, Communicate (mcp_input cik_request) 30, Kill], Inr (None, ''Timeout''))
   \<and> launches (fst (send_mcp_request (\<lambda>k inp. CommRaises TimeoutExpired) 0 cik_request)) = 1
   \<and> tools_test json_loads (\<lambda>k inp. CommRaises TimeoutExpired) =
     ([Print ''=== Testing MCP Tools List ==='', Popen docker_cmd,
       Communicate (mcp_input tools_list_request) 30, Kill], Inr ())
   \<and> cik_test json_loads (\<lambda>k inp. CommRaises TimeoutExpired) =
     ([Print (NL # ''=== Testing Company CIK Lookup ===''), Popen docker_cmd,
       Communicate (mcp_input cik_request) 30, Kill], Inr ())"
  using timeout_is_single_run_and_kill
    [of json_loads "\<lambda>k inp. CommRaises TimeoutExpired" 0 cik_request]
  by simp

subsection \<open>What a scan prints comes from one line\<close>

lemma py_getitem_not_decode: "py_getitem v k \<noteq> Inl JSONDecodeError"
  by (cases v) (simp_all split: option.splits)

lemma py_in_not_decode: "py_in k v \<noteq> Inl JSONDecodeError"
  by (cases v) simp_all

lemma py_len_not_decode: "py_len v \<noteq> Inl JSONDecodeError"
  by (cases v) simp_all

lemma py_slice_to_not_decode: "py_slice_to n v \<noteq> Inl JSONDecodeError"
  by (cases v) simp_all

lemma py_iter_not_decode: "py_iter v \<noteq> Inl JSONDecodeError"
  by (cases v) simp_all

lemma in_result_not_decode: "in_result key v \<noteq> Inl JSONDecodeError"
  using py_in_not_decode py_getitem_not_decode
  by (auto simp: in_result_def split: sum.splits)

lemma result_with_id_3_not_decode: "result_with_id_3 v \<noteq> Inl JSONDecodeError"
  using py_in_not_decode py_getitem_not_decode
  by (auto simp: result_with_id_3_def split: sum.splits)

lemma tool_entry_not_decode: "tool_entry t \<noteq> Inl JSONDecodeError"
  using py_getitem_not_decode py_slice_to_not_decode
  by (auto simp: tool_entry_def split: sum.splits)

lemma print_tools_not_decode: "snd (print_tools ts) \<noteq> Inl JSONDecodeError"
  using tool_entry_not_decode
  by (induction ts) (auto simp: after_def split: sum.splits)

lemma leaves_lift_True: "leaves (lift (Inr True))"
  by (simp add: leaves_def lift_def)

lemma leaves_bind:
  "r \<noteq> Inl JSONDecodeError \<Longrightarrow> (\<And>a. leaves (k a)) \<Longrightarrow> leaves (io_bind (lift r) k)"
  by (cases r) (auto simp: leaves_def io_defs split: sum.splits)

lemma leaves_then_emit: "leaves k \<Longrightarrow> leaves (io_then (emit e) k)"
  by (auto simp: leaves_def io_defs split: sum.splits)

lemma leaves_then:
  "snd m \<noteq> Inl JSONDecodeError \<Longrightarrow> leaves k \<Longrightarrow> leaves (io_then m k)"
  by (auto simp: leaves_def io_defs split: sum.splits)

lemma show_tools_leaves: "leaves (show_tools r)"
  unfolding show_tools_def
  by (intro leaves_bind leaves_then_emit leaves_then leaves_lift_True
      py_getitem_not_decode py_len_not_decode py_slice_to_not_decode py_iter_not_decode
      print_tools_not_decode)
    (simp add: io_defs)


lemma ends_scan_leaves: "ends_scan body l = leaves (body l)"
  by (simp add: ends_scan_def)

lemma tools_body_unfold:
  "tools_body loads l =
     after [JsonLoads l]
       (case loads l of
          Inl e \<Rightarrow> ([], Inl e)
        | Inr r \<Rightarrow>
            (case in_result ''tools'' r of
               Inl e \<Rightarrow> ([], Inl e)
             | Inr found \<Rightarrow> if found then show_tools r else ([], Inr False)))"
  by (simp add: tools_body_def io_defs split: sum.splits)

lemma leaves_after: "leaves (after t m) = leaves m"
  by (simp add: leaves_def after_def)

lemma tools_body_silent:
  "\<not> ends_scan (tools_body loads) l \<Longrightarrow> printed (fst (tools_body loads l)) = []"
  using show_tools_leaves
  by (auto simp: ends_scan_leaves tools_body_unfold leaves_after fst_after printed_def
      split: sum.splits if_splits)

lemma cik_body_silent:
  "\<not> ends_scan (cik_body loads) l \<Longrightarrow> printed (fst (cik_body loads l)) = []"
  using py_getitem_not_decode
  by (auto simp: ends_scan_case cik_body_def io_defs printed_def split: sum.splits if_splits)

lemma apple_body_silent:
  "\<not> ends_scan (apple_body loads) l \<Longrightarrow> printed (fst (apple_body loads l)) = []"
  by (auto simp: ends_scan_case apple_body_unfold printed_def split: sum.splits if_splits)

lemma tools_body_prints_parsed:
  "printed (fst (tools_body loads l)) \<noteq> [] \<Longrightarrow> \<exists>r. loads l = Inr r"
  by (cases "loads l") (simp_all add: tools_body_unfold fst_after printed_def)

lemma cik_body_prints_parsed:
  "printed (fst (cik_body loads l)) \<noteq> [] \<Longrightarrow> \<exists>r. loads l = Inr r"
  by (cases "loads l") (simp_all add: cik_body_def io_defs printed_def)

lemma apple_body_prints_parsed:
  "printed (fst (apple_body loads l)) \<noteq> [] \<Longrightarrow> \<exists>r. loads l = Inr r"
  by (cases "loads l") (simp_all add: apple_body_unfold printed_def)

lemma for_lines_single: "fst (for_lines body [l]) = fst (body l)"
  by (simp add: after_def split: sum.splits)

lemma for_lines_one_line:
  assumes "\<And>l. \<not> ends_scan body l \<Longrightarrow> printed (fst (body l)) = []"
  shows "printed (fst (for_lines body ls)) = []
       \<or> (\<exists>l\<in>set ls. printed (fst (body l)) \<noteq> []
             \<and> printed (fst (for_lines body ls)) = printed (fst (body l)))"
proof (induction ls)
  case Nil
  show ?case by (simp add: printed_def)
next
  case (Cons l ls)
  show ?case
  proof (cases "ends_scan body l")
    case True
    then have "fst (for_lines body (l # ls)) = fst (body l)"
      by (auto simp: ends_scan_case split: sum.splits)
    then show ?thesis by (cases "printed (fst (body l)) = []") simp_all
  next
    case False
    then have "printed (fst (for_lines body (l # ls))) = printed (fst (for_lines body ls))"
      using assms [OF False]
      by (auto simp: ends_scan_case fst_after printed_append split: sum.splits)
    with Cons show ?thesis by auto
  qed
qed

lemma scan_one_line:
  assumes "\<And>l. \<not> ends_scan body l \<Longrightarrow> printed (fst (body l)) = []"
    and "\<And>l. printed (fst (body l)) \<noteq> [] \<Longrightarrow> \<exists>r. loads l = Inr r"
  shows "printed (fst (for_lines body ls)) = []
       \<or> (\<exists>l\<in>set ls. \<exists>r. loads l = Inr r
             \<and> printed (fst (for_lines body ls)) = printed (fst (for_lines body [l])))"
  using for_lines_one_line [of body ls, OF assms(1)] assms(2)
  by (auto simp: for_lines_single simp del: for_lines.simps)

lemma all_raise_no_line: "list_all (\<lambda>l. isl (loads l)) ls \<Longrightarrow> \<not> (\<exists>l\<in>set ls. \<exists>r. loads l = Inr r)"
  by (auto simp: list_all_iff)

text \<open>
  C6. Partial or fragmented JSON that spans several output lines is never handled. What a
  scan prints for the whole output is either nothing, or exactly what it prints for one
  line of the output taken alone, a line that the parser accepts on its own. A document
  split across lines, none of which parses on its own, is therefore never reassembled,
  parsed or matched: the scan prints nothing.
\<close>

theorem prints_come_from_one_line:
  "(printed (fst (apple_scan loads ls)) = []
      \<or> (\<exists>l\<in>set ls. \<exists>r. loads l = Inr r
            \<and> printed (fst (apple_scan loads ls)) = printed (fst (apple_scan loads [l]))))
   \<and> (printed (fst (tools_scan loads ls)) = []
      \<or> (\<exists>l\<in>set ls. \<exists>r. loads l = Inr r
            \<and> printed (fst (tools_scan loads ls)) = printed (fst (tools_scan loads [l]))))
   \<and> (printed (fst (cik_scan loads ls)) = []
      \<or> (\<exists>l\<in>set ls. \<exists>r. loads l = Inr r
            \<and> printed (fst (cik_scan loads ls)) = printed (fst (cik_scan loads [l]))))
   \<and> (list_all (\<lambda>l. isl (loads l)) ls \<longrightarrow>
        printed (fst (apple_scan loads ls)) = []
        \<and> printed (fst (tools_scan loads ls)) = []
        \<and> printed (fst (cik_scan loads ls)) = [])"
proof -
  have a: "printed (fst (apple_scan loads ls)) = []
      \<or> (\<exists>l\<in>set ls. \<exists>r. loads l = Inr r
            \<and> printed (fst (apple_scan loads ls)) = printed (fst (apple_scan loads [l])))"
    unfolding apple_scan_def
    by (rule scan_one_line) (simp_all add: apple_body_silent apple_body_prints_parsed)
  have t: "printed (fst (tools_scan loads ls)) = []
      \<or> (\<exists>l\<in>set ls. \<exists>r. loads l = Inr r
            \<and> printed (fst (tools_scan loads ls)) = printed (fst (tools_scan loads [l])))"
    unfolding tools_scan_def
    by (rule scan_one_line) (simp_all add: tools_body_silent tools_body_prints_parsed)
  have c: "printed (fst (cik_scan loads ls)) = []
      \<or> (\<exists>l\<in>set ls. \<exists>r. loads l = Inr r
            \<and> printed (fst (cik_scan loads ls)) = printed (fst (cik_scan loads [l])))"
    unfolding cik_scan_def
    by (rule scan_one_line) (simp_all add: cik_body_silent cik_body_prints_parsed)
  from a t c all_raise_no_line [of loads ls] show ?thesis by blast
qed

theorem prints_come_from_one_line_witness:
  \<open>isl (json_loads ''{"id": 2,'')
   \<and> isl (json_loads '' "result": {"content": 7, "tools": []}}'')
   \<and> printed (fst (apple_scan json_loads
        [''{"id": 2,'', '' "result": {"content": 7, "tools": []}}''])) = []
   \<and> printed (fst (tools_scan json_loads
        [''{"id": 2,'', '' "result": {"content": 7, "tools": []}}''])) = []
   \<and> printed (fst (cik_scan json_loads
        [''{"id": 2,'', '' "result": {"content": 7, "tools": []}}''])) = []
   \<and> printed (fst (cik_scan json_loads
        [''{"id": 2, "result": {"content": 7, "tools": []}}''])) =
       [Print ''Apple (AAPL) CIK lookup result:'', PrintJson (JInt 7)]\<close>
proof -
  have a: \<open>isl (json_loads ''{"id": 2,'')\<close>
    by code_simp
  have b: \<open>isl (json_loads '' "result": {"content": 7, "tools": []}}'')\<close>
    by code_simp
  have j: \<open>printed (fst (cik_scan json_loads
        [''{"id": 2, "result": {"content": 7, "tools": []}}''])) =
       [Print ''Apple (AAPL) CIK lookup result:'', PrintJson (JInt 7)]\<close>
    by code_simp
  from prints_come_from_one_line
    [of json_loads \<open>[''{"id": 2,'', '' "result": {"content": 7, "tools": []}}'']\<close>] a b j
  show ?thesis by simp
qed

subsection \<open>The uncaught \<^verbatim>\<open>KeyError\<close> of the CIK loop\<close>

lemma cik_body_no_id:
  assumes "loads l = Inr (JObject kvs)"
    and "map_of kvs ''result'' = Some r"
    and "py_in ''content'' r = Inr False"
    and "map_of kvs ''id'' = None"
  shows "cik_body loads l = ([JsonLoads l], Inl (KeyError ''id''))"
  using assms
  by (simp add: cik_body_def in_result_def result_with_id_3_def io_defs)

lemma cik_scan_no_id:
  assumes "loads l = Inr (JObject kvs)"
    and "map_of kvs ''result'' = Some r"
    and "py_in ''content'' r = Inr False"
    and "map_of kvs ''id'' = None"
  shows "cik_scan loads (l # rest) = ([JsonLoads l], Inl (KeyError ''id''))"
  using cik_body_no_id [of loads l kvs r] assms by (simp add: cik_scan_def)

lemma cik_test_returns:
  "docker 1 (mcp_input cik_request) = Returns out err \<Longrightarrow> out \<noteq> [] \<Longrightarrow>
   cik_test loads docker =
     after [Print (NL # ''=== Testing Company CIK Lookup ===''), Popen docker_cmd,
            Communicate (mcp_input cik_request) 30]
       (cik_scan loads (output_lines out))"
  by (simp add: cik_test_def send_mcp_request_def process_stdout_def io_defs)

lemma snd_main:
  "snd (tools_test loads docker) = Inr u \<Longrightarrow> snd (main loads docker) = snd (cik_test loads docker)"
  by (simp add: main_def io_then_def snd_io_bind)

text \<open>
  C8. In the CIK lookup loop of \<^verbatim>\<open>test-mcp.py\<close> there are output lines on which the script
  raises a \<^verbatim>\<open>KeyError\<close> that nothing catches, so that the program ends instead of skipping
  the line: every line that parses to an object with a \<^verbatim>\<open>result\<close> key whose value does not
  contain \<^verbatim>\<open>content\<close>, and without an \<^verbatim>\<open>id\<close> key, does so when the scan reaches it as the
  first line of the output of the second start (the first test having ended normally).
\<close>

theorem cik_loop_uncaught_key_error:
  assumes "snd (tools_test loads docker) = Inr ()"
    and "docker 1 (mcp_input cik_request) = Returns out err"
    and "out \<noteq> []"
    and "output_lines out = l # rest"
    and "loads l = Inr (JObject kvs)"
    and "map_of kvs ''result'' = Some r"
    and "py_in ''content'' r = Inr False"
    and "map_of kvs ''id'' = None"
  shows "cik_scan loads (output_lines out) = ([JsonLoads l], Inl (KeyError ''id''))
       \<and> snd (main loads docker) = Inl (KeyError ''id'')"
proof -
  have scan: "cik_scan loads (output_lines out) = ([JsonLoads l], Inl (KeyError ''id''))"
    using cik_scan_no_id [of loads l kvs r rest] assms(4-8) by simp
  have "snd (main loads docker) = snd (cik_test loads docker)"
    by (rule snd_main [OF assms(1)])
  also have "\<dots> = snd (cik_scan loads (output_lines out))"
    using cik_test_returns [of docker out err loads] assms(2,3) by (simp add: snd_after)
  finally show ?thesis using scan by simp
qed

theorem cik_loop_uncaught_key_error_witness:
  \<open>main json_loads
     (\<lambda>k inp. if k = 0 then CommRaises TimeoutExpired else Returns (''{"result": {}}'' @ [NL]) []) =
     ([Print ''=== Testing MCP Tools List ==='',
       Popen docker_cmd, Communicate (mcp_input tools_list_request) 30, Kill,
       Print (NL # ''=== Testing Company CIK Lookup ===''),
       Popen docker_cmd, Communicate (mcp_input cik_request) 30,
       JsonLoads ''{"result": {}}''],
      Inl (KeyError ''id''))\<close>
proof -
  let ?docker = \<open>\<lambda>k inp. if k = (0::nat) then CommRaises TimeoutExpired
                         else Returns (''{"result": {}}'' @ [NL]) []\<close>
  have t: "tools_test json_loads ?docker =
     ([Print ''=== Testing MCP Tools List ==='', Popen docker_cmd,
       Communicate (mcp_input tools_list_request) 30, Kill], Inr ())"
    by (simp add: tools_test_def send_mcp_request_def process_stdout_def io_defs)
  have o: \<open>output_lines (''{"result": {}}'' @ [NL]) = ''{"result": {}}'' # []\<close>
    by code_simp
  have p: \<open>json_loads ''{"result": {}}'' = Inr (JObject [(''result'', JObject [])])\<close>
    by code_simp
  have ks: \<open>cik_scan json_loads (output_lines (''{"result": {}}'' @ [NL])) =
        ([JsonLoads ''{"result": {}}''], Inl (KeyError ''id''))
      \<and> snd (main json_loads ?docker) = Inl (KeyError ''id'')\<close>
  proof (rule cik_loop_uncaught_key_error
      [where err = "[]" and rest = "[]" and kvs = "[(''result'', JObject [])]" and r = "JObject []"])
    show "snd (tools_test json_loads ?docker) = Inr ()"
      by (simp add: t)
    show \<open>?docker 1 (mcp_input cik_request) = Returns (''{"result": {}}'' @ [NL]) []\<close>
      by simp
    show \<open>''{"result": {}}'' @ [NL] \<noteq> []\<close>
      by simp
    show \<open>output_lines (''{"result": {}}'' @ [NL]) = ''{"result": {}}'' # []\<close>
      by (rule o)
    show \<open>json_loads ''{"result": {}}'' = Inr (JObject [(''result'', JObject [])])\<close>
      by (rule p)
    show "map_of [(''result'', JObject [])] ''result'' = Some (JObject [])"
      by simp
    show "py_in ''content'' (JObject []) = Inr False"
      by simp
    show "map_of [(''result'', JObject [])] ''id'' = None"
      by simp
  qed
  then have s: \<open>cik_scan json_loads (output_lines (''{"result": {}}'' @ [NL])) =
        ([JsonLoads ''{"result": {}}''], Inl (KeyError ''id''))\<close>
    by (rule conjunct1)
  have c: \<open>cik_test json_loads ?docker =
     after [Print (NL # ''=== Testing Company CIK Lookup ===''), Popen docker_cmd,
            Communicate (mcp_input cik_request) 30]
       (cik_scan json_loads (output_lines (''{"result": {}}'' @ [NL])))\<close>
    by (rule cik_test_returns [where err = "[]"]) simp_all
  show ?thesis
    unfolding main_def io_then_def io_bind_def t c s by (simp add: after_def)
qed

subsection \<open>The tools/list response\<close>











subsection \<open>A test without output\<close>

lemma process_stdout_falsy:
  "stdout = None \<or> stdout = Some [] \<Longrightarrow> process_stdout scan stdout = ([], Inr ())"
  by (auto simp: process_stdout_def)

lemma tools_test_skips:
  assumes "snd (send_mcp_request docker 0 tools_list_request) = Inr (stdout, stderr)"
    and "stdout = None \<or> stdout = Some []"
  shows "tools_test loads docker =
           (Print ''=== Testing MCP Tools List ==='' #
            fst (send_mcp_request docker 0 tools_list_request), Inr ())"
  using assms(1) process_stdout_falsy [OF assms(2)]
  by (simp add: tools_test_def io_defs)

lemma cik_test_skips:
  assumes "snd (send_mcp_request docker 1 cik_request) = Inr (stdout, stderr)"
    and "stdout = None \<or> stdout = Some []"
  shows "cik_test loads docker =
           (Print (NL # ''=== Testing Company CIK Lookup ==='') #
            fst (send_mcp_request docker 1 cik_request), Inr ())"
  using assms(1) process_stdout_falsy [OF assms(2)]
  by (simp add: cik_test_def io_defs)

lemma send_effects_not_printed:
  "printed (fst (send_mcp_request docker k request)) = []"
  "attempts (fst (send_mcp_request docker k request)) = []"
  by (simp_all add: send_mcp_request_def printed_def split: outcome.splits)

text \<open>
  C10. Whenever \<^verbatim>\<open>send_mcp_request\<close> returns with a standard output that is \<^verbatim>\<open>None\<close> (the
  timeout) or the empty string, the main block of \<^verbatim>\<open>test-mcp.py\<close> skips the processing of
  that test entirely: besides the heading of the test nothing is printed, no line is handed
  to the parser and no exception is raised. After the first test the script proceeds to
  the second one, which runs as it does on its own.
\<close>

theorem empty_stdout_skips_processing:
  "(snd (send_mcp_request docker 0 tools_list_request) = Inr (stdout, stderr)
      \<and> (stdout = None \<or> stdout = Some []) \<longrightarrow>
        printed (fst (tools_test loads docker)) = [Print ''=== Testing MCP Tools List ==='']
        \<and> attempts (fst (tools_test loads docker)) = []
        \<and> snd (tools_test loads docker) = Inr ()
        \<and> main loads docker = after (fst (tools_test loads docker)) (cik_test loads docker))
   \<and> (snd (send_mcp_request docker 1 cik_request) = Inr (stdout', stderr')
      \<and> (stdout' = None \<or> stdout' = Some []) \<longrightarrow>
        printed (fst (cik_test loads docker)) = [Print (NL # ''=== Testing Company CIK Lookup ==='')]
        \<and> attempts (fst (cik_test loads docker)) = []
        \<and> snd (cik_test loads docker) = Inr ())"
proof -
  have first: "printed (fst (tools_test loads docker)) = [Print ''=== Testing MCP Tools List ==='']
        \<and> attempts (fst (tools_test loads docker)) = []
        \<and> snd (tools_test loads docker) = Inr ()
        \<and> main loads docker = after (fst (tools_test loads docker)) (cik_test loads docker)"
    if "snd (send_mcp_request docker 0 tools_list_request) = Inr (stdout, stderr)"
      and "stdout = None \<or> stdout = Some []"
  proof -
    note t = tools_test_skips [OF that, of loads]
    have "main loads docker = after (fst (tools_test loads docker)) (cik_test loads docker)"
      by (simp add: main_def io_then_def io_bind_def t)
    then show ?thesis
      using send_effects_not_printed [of docker 0 tools_list_request]
      by (simp add: t printed_def)
  qed
  have second: "printed (fst (cik_test loads docker)) = [Print (NL # ''=== Testing Company CIK Lookup ==='')]
        \<and> attempts (fst (cik_test loads docker)) = []
        \<and> snd (cik_test loads docker) = Inr ()"
    if "snd (send_mcp_request docker 1 cik_request) = Inr (stdout', stderr')"
      and "stdout' = None \<or> stdout' = Some []"
    using send_effects_not_printed [of docker 1 cik_request]
    by (simp add: cik_test_skips [OF that, of loads] printed_def)
  from first second show ?thesis by blast
qed

theorem empty_stdout_skips_processing_witness:
  "main json_loads (\<lambda>k inp. if k = 0 then CommRaises TimeoutExpired else Returns [] ''warning'') =
     ([Print ''=== Testing MCP Tools List ==='',
       Popen docker_cmd, Communicate (mcp_input tools_list_request) 30, Kill,
       Print (NL # ''=== Testing Company CIK Lookup ===''),
       Popen docker_cmd, Communicate (mcp_input cik_request) 30],
      Inr ())
   \<and> printed (fst (cik_test json_loads
        (\<lambda>k inp. if k = 0 then CommRaises TimeoutExpired else Returns [] ''warning''))) =
       [Print (NL # ''=== Testing Company CIK Lookup ==='')]"
proof -
  let ?docker = "\<lambda>k inp. if k = (0::nat) then CommRaises TimeoutExpired else Returns [] ''warning''"
  have s0: "send_mcp_request ?docker 0 tools_list_request =
      ([Popen docker_cmd, Communicate (mcp_input tools_list_request) 30, Kill], Inr (None, ''Timeout''))"
    by (simp add: send_mcp_request_def)
  have s1: "send_mcp_request ?docker 1 cik_request =
      ([Popen docker_cmd, Communicate (mcp_input cik_request) 30], Inr (Some [], ''warning''))"
    by (simp add: send_mcp_request_def)
  note th = empty_stdout_skips_processing
    [where docker = ?docker and loads = json_loads and stdout = None and stderr = "''Timeout''"
       and stdout' = "Some []" and stderr' = "''warning''"]
  have t: "tools_test json_loads ?docker =
      ([Print ''=== Testing MCP Tools List ==='',
        Popen docker_cmd, Communicate (mcp_input tools_list_request) 30, Kill], Inr ())"
    by (simp add: tools_test_def s0 io_defs process_stdout_def)
  have c: "cik_test json_loads ?docker =
      ([Print (NL # ''=== Testing Company CIK Lookup ===''),
        Popen docker_cmd, Communicate (mcp_input cik_request) 30], Inr ())"
    by (simp add: cik_test_def s1 [unfolded One_nat_def] io_defs process_stdout_def)
  from th have m: "main json_loads ?docker =
      after (fst (tools_test json_loads ?docker)) (cik_test json_loads ?docker)"
    and p: "printed (fst (cik_test json_loads ?docker)) =
       [Print (NL # ''=== Testing Company CIK Lookup ==='')]"
    by (simp_all add: s0 s1 [unfolded One_nat_def])
  show ?thesis
    unfolding m p t c by (simp add: after_def printed_def)
qed

end
